theory Spec2Isabelle
  imports Complex_Main "HOL-Library.Log_Nat" "HOL-Library.Signed_Division" "HOL-Library.Word"
begin

unbundle bit_operations_syntax

section \<open>The 2D map renderer of SLADE (MapRenderer2D.cpp)\<close>

text \<open>
  A shallow embedding of the parts of \<^verbatim>\<open>MapRenderer2D.cpp\<close> that decide sector
  visibility, cache staleness, thing paths and the moving-vertex overlay.

  Conventions of the embedding:
  \<^item> \<^verbatim>\<open>float\<close> and \<^verbatim>\<open>double\<close> values are modelled by the real numbers they denote, so
    comparisons are exact. Where the comparison of a computed value decides which value
    is stored (the size test of \<^verbatim>\<open>updateVisibility\<close>), each arithmetic operation rounds
    its exact result with the function \<open>fl\<close>, the rounding to \<^verbatim>\<open>double\<close> of the machine,
    which the operation takes as an argument; \<open>round_double\<close> is the rounding of
    IEEE 754 binary64 arithmetic. Elsewhere rounding changes a drawn coordinate or size
    only by the rounding error and is not modelled.
  \<^item> the identifiers and arguments of things are \<^verbatim>\<open>int\<close> values that take part in
    arithmetic; they are 32-bit words, whose sum and product wrap around as they do in
    the compiled code. Other \<^verbatim>\<open>int\<close> values (type numbers, the next-args code) are only
    compared, or divided by 10, and are integers; division and remainder of \<^verbatim>\<open>int\<close>
    truncate towards zero (\<open>sdiv\<close>, \<open>smod\<close>).
  \<^item> pointers into the map's object lists are modelled by the object's index in its
    list (\<^verbatim>\<open>MapObject::index()\<close>); a null pointer is \<open>None\<close>.
  \<^item> the members \<^verbatim>\<open>map_\<close> and \<^verbatim>\<open>view_\<close> point to objects that are owned and changed
    outside the renderer; the map and the view are passed to every operation as
    arguments. The renderer's own members are the fields of the record
    \<open>MapRenderer2D\<close>.
  \<^item> the console variables and the configuration collaborators are the fields of the
    record \<open>Env\<close>; the value of \<^verbatim>\<open>app::runTimer()\<close> is the argument \<open>now\<close>.
  \<^item> calls into the OpenGL backend are recorded, in order, in the field \<open>gl_calls\<close>.
\<close>

subsection \<open>Geometry, view and map data\<close>

record Vec2d =
  vec_x :: real
  vec_y :: real

text \<open>\<^verbatim>\<open>BBox\<close>: the members \<^verbatim>\<open>min\<close> and \<^verbatim>\<open>max\<close>.\<close>

record BBox =
  bb_min :: Vec2d
  bb_max :: Vec2d

text \<open>
  \<^verbatim>\<open>gl::View\<close> (View.cpp): the members \<^verbatim>\<open>scale_\<close> and \<^verbatim>\<open>scale_inter_\<close>. The accessor
  \<^verbatim>\<open>scale(bool inter)\<close> is declared in View.h, which is not part of the sources at hand.

  Modelled from the spec: \<open>view_scale\<close> returns the interpolated scale when asked for
  it and the target scale otherwise (the view collaborator "exposing current scale"). A
  call without argument, \<^verbatim>\<open>scale()\<close>, is taken to ask for the target scale.
\<close>

record View =
  scale_cur :: Vec2d
  scale_inter :: Vec2d

definition view_scale :: "View \<Rightarrow> bool \<Rightarrow> Vec2d" where
  "view_scale view interp = (if interp then scale_inter view else scale_cur view)"

text \<open>
  Modelled from the spec: the visibility constants \<^verbatim>\<open>VIS_LEFT\<close> ... \<^verbatim>\<open>VIS_SMALL\<close> are
  declared in MapRenderer2D.h, which is not part of the sources at hand. The spec names
  the buckets Visible, Left, Right, Above, Below and TooSmall; \<open>VIS_NONE\<close> is the
  value \<^verbatim>\<open>0\<close> that the code stores for a visible sector.
\<close>

datatype Visibility = VIS_NONE | VIS_LEFT | VIS_RIGHT | VIS_ABOVE | VIS_BELOW | VIS_SMALL

text \<open>
  A sector: its bounding box, and the list that \<^verbatim>\<open>putLines\<close> fills (pointers to lines,
  which the renderer tests for null).
\<close>

record MapSector =
  boundingBox :: BBox
  putLines :: "nat option list"
  sector_modified_time :: int

record MapVertex =
  position :: Vec2d
  connectedLines :: "nat list"

text \<open>
  A line refers to its two vertices by index. \<open>s1\<close> and \<open>s2\<close> say whether the line has
  a front and a back side. The points that \<^verbatim>\<open>getPoint(Point::Mid)\<close> and \<^verbatim>\<open>dirTabPoint()\<close>
  compute (MapLine.cpp, not part of the sources at hand) are given with the line.
\<close>

record MapLine =
  v1 :: nat
  v2 :: nat
  special :: int
  s1 :: bool
  s2 :: bool
  isFiltered :: bool
  line_mid :: Vec2d
  line_tab :: Vec2d
  line_modified_time :: int

text \<open>
  A thing; \<open>thing_arg t i\<close> is what \<^verbatim>\<open>arg(i)\<close> returns for the thing (the accessor is
  declared in MapThing.h, not part of the sources at hand, so it is kept as a function).
  \<^verbatim>\<open>id()\<close> and \<^verbatim>\<open>arg(i)\<close> return \<^verbatim>\<open>int\<close>.
\<close>

record MapThing =
  thing_index :: nat
  thing_type :: int
  thing_id :: "32 word"
  thing_arg :: "int \<Rightarrow> 32 word"
  thing_pos :: Vec2d
  thing_angle :: int
  thing_filtered :: bool
  thing_modified_time :: int

record SLADEMap =
  vertices :: "MapVertex list"
  lines :: "MapLine list"
  sectors :: "MapSector list"
  things :: "MapThing list"
  geometryUpdated :: int
  thingsUpdated :: int

definition nVertices :: "SLADEMap \<Rightarrow> nat" where
  "nVertices m = length (vertices m)"

definition nLines :: "SLADEMap \<Rightarrow> nat" where
  "nLines m = length (lines m)"

definition nSectors :: "SLADEMap \<Rightarrow> nat" where
  "nSectors m = length (sectors m)"

definition nThings :: "SLADEMap \<Rightarrow> nat" where
  "nThings m = length (things m)"

subsection \<open>Backend buffers and the renderer's members\<close>

text \<open>
  \<^verbatim>\<open>ColRGBA\<close> has four byte components; \<^verbatim>\<open>asVec4\<close> gives them as fractions of 255.
  Multiplying a component by a \<^verbatim>\<open>float\<close> truncates the product back to a byte.
\<close>

record ColRGBA =
  col_r :: nat
  col_g :: nat
  col_b :: nat
  col_a :: nat

record Vec4 =
  v4_r :: real
  v4_g :: real
  v4_b :: real
  v4_a :: real

definition asVec4 :: "ColRGBA \<Rightarrow> Vec4" where
  "asVec4 c = \<lparr>v4_r = real (col_r c) / 255, v4_g = real (col_g c) / 255,
               v4_b = real (col_b c) / 255, v4_a = real (col_a c) / 255\<rparr>"

definition mul_alpha :: "ColRGBA \<Rightarrow> real \<Rightarrow> ColRGBA" where
  "mul_alpha c f = c\<lparr>col_a := nat \<lfloor>real (col_a c) * f\<rfloor>\<rparr>"

text \<open>
  \<^verbatim>\<open>gl::LineBuffer\<close> (LineBuffer.cpp): \<^verbatim>\<open>add\<close> appends to the staging list \<^verbatim>\<open>lines_\<close>,
  \<^verbatim>\<open>push\<close> uploads the staged lines to \<^verbatim>\<open>buffer_\<close> and clears the staging list, and
  \<^verbatim>\<open>draw\<close> draws the uploaded lines. \<^verbatim>\<open>push\<close> and \<^verbatim>\<open>draw\<close> return at once when there is
  no OpenGL context; the renderer is modelled where it runs, inside a frame's draw
  callback, where a context exists. \<^verbatim>\<open>draw\<close> also returns at once when the uploaded
  buffer is empty; a \<open>DrawLineBuffer\<close> entry below records the call of \<^verbatim>\<open>draw\<close> with
  the buffer as it is then.

  Modelled from the spec: \<^verbatim>\<open>gl::PointSpriteBuffer\<close> and \<^verbatim>\<open>gl::ThingBuffer2D\<close> are not part
  of the sources at hand. They follow the spec's GeometryBuffer contract, which is also
  what \<^verbatim>\<open>LineBuffer\<close> does: \<^verbatim>\<open>add\<close> appends to a CPU-side staging list, \<^verbatim>\<open>push\<close> uploads
  the staged batch and clears the staging list, and \<^verbatim>\<open>draw\<close> issues a draw call with the
  uploaded contents.
\<close>

record GLLine =
  gl_x1 :: real
  gl_y1 :: real
  gl_x2 :: real
  gl_y2 :: real
  gl_colour :: Vec4
  gl_width :: "real option"

record LineBuffer =
  lb_staged :: "GLLine list"
  lb_uploaded :: "GLLine list"
  lb_width_mult :: real

definition new_LineBuffer :: LineBuffer where
  "new_LineBuffer = \<lparr>lb_staged = [], lb_uploaded = [], lb_width_mult = 1\<rparr>"

text \<open>
  \<^verbatim>\<open>add2d\<close> has an optional last argument, the line's width; \<open>None\<close> stands for a call
  that leaves it out. The same holds for the colour of \<^verbatim>\<open>LineBuffer::draw\<close>.
\<close>

definition lb_add2d ::
  "real \<Rightarrow> real \<Rightarrow> real \<Rightarrow> real \<Rightarrow> Vec4 \<Rightarrow> real option \<Rightarrow> LineBuffer \<Rightarrow> LineBuffer" where
  "lb_add2d xa ya xb yb col w lb =
     lb\<lparr>lb_staged := lb_staged lb @
        [\<lparr>gl_x1 = xa, gl_y1 = ya, gl_x2 = xb, gl_y2 = yb, gl_colour = col, gl_width = w\<rparr>]\<rparr>"

definition lb_push :: "LineBuffer \<Rightarrow> LineBuffer" where
  "lb_push lb = lb\<lparr>lb_uploaded := lb_staged lb, lb_staged := []\<rparr>"

record PointSpriteBuffer =
  ps_staged :: "(Vec2d \<times> real) list"
  ps_uploaded :: "(Vec2d \<times> real) list"
  ps_colour :: Vec4
  ps_radius :: real
  ps_fill_opacity :: real
  ps_outline_width :: real

definition ps_add :: "Vec2d \<Rightarrow> real \<Rightarrow> PointSpriteBuffer \<Rightarrow> PointSpriteBuffer" where
  "ps_add pos radius ps = ps\<lparr>ps_staged := ps_staged ps @ [(pos, radius)]\<rparr>"

definition ps_push :: "PointSpriteBuffer \<Rightarrow> PointSpriteBuffer" where
  "ps_push ps = ps\<lparr>ps_uploaded := ps_staged ps, ps_staged := []\<rparr>"

record ThingInstance =
  ti_x :: real
  ti_y :: real
  ti_angle :: int
  ti_alpha :: real

record ThingBuffer2D =
  tb_type :: int
  tb_staged :: "ThingInstance list"
  tb_uploaded :: "ThingInstance list"

definition tb_push :: "ThingBuffer2D \<Rightarrow> ThingBuffer2D" where
  "tb_push tb = tb\<lparr>tb_uploaded := tb_staged tb, tb_staged := []\<rparr>"

text \<open>
  Modelled from the spec: \<^verbatim>\<open>PathType\<close> and \<^verbatim>\<open>ThingPath\<close> are declared in MapRenderer2D.h,
  which is not part of the sources at hand. By the spec a thing path is a directed edge
  with a from-index, a to-index and a kind, one of Normal, NormalBoth, Dragon and
  DragonBoth. The code assigns \<^verbatim>\<open>MapObject::index()\<close> values, which are unsigned, to the
  two indices.
\<close>

datatype PathType = Normal | NormalBoth | Dragon | DragonBoth

record ThingPath =
  from_index :: nat
  to_index :: nat
  path_type :: PathType

text \<open>
  The contents of the draw context \<^verbatim>\<open>gl::draw2d::Context\<close> that the overlay passes set.
\<close>

datatype PointSpriteType = Textured | CircleOutline | RoundedSquareOutline

text \<open>A texture handle: 0 (no texture) or an editor image, named by its key.\<close>

datatype Texture = NoTexture | EditorImage string

record Context =
  dc_colour :: ColRGBA
  dc_blend :: string
  dc_texture :: Texture
  dc_line_thickness :: real
  dc_line_arrow_length :: real
  dc_pointsprite_type :: PointSpriteType
  dc_pointsprite_radius :: real

text \<open>A rectangle or segment \<^verbatim>\<open>Rectf\<close>: top-left and bottom-right (start and end).\<close>

type_synonym Rectf = "Vec2d \<times> Vec2d"

datatype GLCall =
    SetBlend string
  | EnableTexture2D
  | BindTexture Texture
  | SetUniformColour Vec4
  | SetupShader View
  | DrawLineBuffer LineBuffer View "Vec4 option"
  | DrawPointSpriteBuffer PointSpriteBuffer PointSpriteType View "(int \<times> nat) option"
  | DrawThingBuffer ThingBuffer2D View Vec4 bool bool
  | DrawPolygon nat
  | DcDrawLines Context "Rectf list"
  | DcDrawRect Context Rectf
  | DcDrawRectOutline Context Rectf
  | DcDrawPointSprites Context "Vec2d list"

record MapRenderer2D =
  vertices_buffer :: "PointSpriteBuffer option"
  n_vertices :: nat
  vertices_updated :: int
  lines_buffer :: "LineBuffer option"
  lines_dirs :: bool
  n_lines :: nat
  lines_updated :: int
  flats_buffer_present :: bool
  thing_buffers :: "ThingBuffer2D list"
  things_updated :: int
  things_angles :: bool
  thing_paths :: "ThingPath list"
  thing_paths_updated :: int
  vis_s :: "Visibility list"
  temp_lines_buffer :: LineBuffer
  thing_overlay_buffer :: PointSpriteBuffer
  gl_calls :: "GLCall list"

subsection \<open>Sector visibility\<close>

text \<open>
  The rounding of a real number to \<^verbatim>\<open>double\<close> (IEEE 754 binary64, round to nearest, ties
  to even), for results below the overflow threshold. With \<open>2 ^ e \<le> \<bar>x\<bar> < 2 ^ (e + 1)\<close>,
  and \<open>e\<close> no less than the least exponent \<open>- 1022\<close> of a normal number, the representable
  numbers around \<open>x\<close> are the multiples of \<open>2 ^ (e - 52)\<close>; \<open>e\<close> is read off the bit length of
  the integer part of \<open>\<bar>x\<bar> * 2 ^ 1074\<close>.
\<close>

definition round_half_even :: "real \<Rightarrow> int" where
  "round_half_even y =
    (let n = \<lfloor>y\<rfloor>
     in if y - of_int n < 1 / 2 then n
        else if 1 / 2 < y - of_int n then n + 1
        else if even n then n else n + 1)"

definition round_double :: "real \<Rightarrow> real" where
  "round_double x =
    (let e = max (bitlen \<lfloor>\<bar>x\<bar> * 2 ^ 1074\<rfloor> - 1075) (- 1022);
         ulp = 2 powi (e - 52)
     in sgn x * (of_int (round_half_even (\<bar>x\<bar> / ulp)) * ulp))"

text \<open>
  The body of the loop of \<^verbatim>\<open>updateVisibility\<close> for one sector: the five tests are
  made in the order of the source, each one overwriting the entry. The bounding box, the
  viewport corners and the scale are \<^verbatim>\<open>double\<close>; in the size test the difference and the
  product are each rounded by \<open>fl\<close> before the product is compared with 4.
\<close>

definition sector_vis ::
  "(real \<Rightarrow> real) \<Rightarrow> View \<Rightarrow> Vec2d \<Rightarrow> Vec2d \<Rightarrow> BBox \<Rightarrow> Visibility" where
  "sector_vis fl view view_tl view_br bbox =
    (let vis0 = VIS_NONE;
         vis1 = (if vec_x (bb_max bbox) < vec_x view_tl then VIS_LEFT else vis0);
         vis2 = (if vec_y (bb_max bbox) < vec_y view_tl then VIS_ABOVE else vis1);
         vis3 = (if vec_x (bb_min bbox) > vec_x view_br then VIS_RIGHT else vis2);
         vis4 = (if vec_y (bb_min bbox) > vec_y view_br then VIS_BELOW else vis3)
     in if fl (fl (vec_x (bb_max bbox) - vec_x (bb_min bbox)) * vec_x (view_scale view False)) < 4
           \<or> fl (fl (vec_y (bb_max bbox) - vec_y (bb_min bbox)) * vec_x (view_scale view False)) < 4
        then VIS_SMALL else vis4)"

text \<open>
  \<^verbatim>\<open>updateVisibility\<close>: the table \<^verbatim>\<open>vis_s_\<close> is reset to zeros when its size differs from
  the sector count, then every entry \<^verbatim>\<open>a < nSectors\<close> is assigned.
\<close>

definition updateVisibility ::
  "(real \<Rightarrow> real) \<Rightarrow> SLADEMap \<Rightarrow> View \<Rightarrow> Vec2d \<Rightarrow> Vec2d \<Rightarrow> MapRenderer2D \<Rightarrow> MapRenderer2D" where
  "updateVisibility fl m view view_tl view_br r =
    r\<lparr>vis_s :=
      fold (\<lambda>a tab. tab[a := sector_vis fl view view_tl view_br (boundingBox (sectors m ! a))])
        [0..<nSectors m]
        (if nSectors m \<noteq> length (vis_s r) then replicate (nSectors m) VIS_NONE else vis_s r)\<rparr>"

definition visOK :: "SLADEMap \<Rightarrow> MapRenderer2D \<Rightarrow> bool" where
  "visOK m r = (nSectors m = length (vis_s r))"

text \<open>
  A renderer as the constructor leaves it: the overlay buffers are created, the cached
  buffers are still absent. The initial values of the counters, flags and timestamps are
  given in MapRenderer2D.h, which is not part of the sources at hand; they are taken to
  be zero and false. Members that none of the operations below reads or writes are left
  out of the record.
\<close>

definition new_PointSpriteBuffer :: PointSpriteBuffer where
  "new_PointSpriteBuffer =
     \<lparr>ps_staged = [], ps_uploaded = [],
      ps_colour = \<lparr>v4_r = 1, v4_g = 1, v4_b = 1, v4_a = 1\<rparr>,
      ps_radius = 1, ps_fill_opacity = 0, ps_outline_width = 1\<rparr>"

definition new_MapRenderer2D :: MapRenderer2D where
  "new_MapRenderer2D =
     \<lparr>vertices_buffer = None, n_vertices = 0, vertices_updated = 0,
      lines_buffer = None, lines_dirs = False, n_lines = 0, lines_updated = 0,
      flats_buffer_present = False,
      thing_buffers = [], things_updated = 0, things_angles = False,
      thing_paths = [], thing_paths_updated = 0,
      vis_s = [],
      temp_lines_buffer = new_LineBuffer,
      thing_overlay_buffer = new_PointSpriteBuffer,
      gl_calls = []\<rparr>"

subsection \<open>Configuration\<close>

text \<open>
  The console variables read by the code (\<^verbatim>\<open>CVAR\<close> declarations at the top of the file)
  and the collaborators it queries: the colour configuration (\<^verbatim>\<open>colourconfig::colour\<close>,
  \<^verbatim>\<open>colDef(...).blendMode()\<close>, \<^verbatim>\<open>lineHilightWidth\<close>) and the game configuration's thing
  types (\<^verbatim>\<open>game::configuration().thingType\<close>). Of a thing type's flag word only the
  \<^verbatim>\<open>Dragon\<close> bit is read; \<open>tt_dragon\<close> is its truth value. \<open>ColRGBA_default\<close> is the
  default-constructed colour (its class is not part of the sources at hand).
  Three more members stand for declarations that are not part of the sources at hand:
  \<open>ampf\<close> is \<^verbatim>\<open>ColRGBA::ampf\<close>, \<open>setColourFromConfig\<close> is the method of the draw context
  (its alpha argument is optional), and \<open>default_overlay\<close> is the default of the
  argument of \<^verbatim>\<open>vertexTexture\<close>.
\<close>

record ThingType =
  tt_dragon :: bool
  nextType :: int
  nextArgs :: int
  tt_radius :: int
  shrinkOnZoom :: bool

record Env =
  vertex_size :: int
  vertex_round :: bool
  line_width :: real
  thing_shape :: int
  thing_overlay_square :: bool
  sector_hilight_fill :: bool
  map_animate_hilight :: bool
  ColRGBA_default :: ColRGBA
  colour :: "string \<Rightarrow> ColRGBA"
  blendMode :: "string \<Rightarrow> string"
  lineHilightWidth :: real
  thingType :: "int \<Rightarrow> ThingType"
  ampf :: "ColRGBA \<Rightarrow> real \<Rightarrow> real \<Rightarrow> real \<Rightarrow> real \<Rightarrow> ColRGBA"
  setColourFromConfig :: "string \<Rightarrow> real option \<Rightarrow> Context \<Rightarrow> Context"
  default_overlay :: bool

subsection \<open>Vertex radius\<close>

text \<open>
  \<^verbatim>\<open>vertexRadius(scale)\<close>. The horizontal scale read is the interpolated one,
  \<^verbatim>\<open>view_->scale(true).x\<close>.
\<close>

definition vertexRadius :: "Env \<Rightarrow> View \<Rightarrow> real \<Rightarrow> real" where
  "vertexRadius env view scale =
    (let vscale = vec_x (view_scale view True);
         size0 = real_of_int (vertex_size env) / vscale;
         size1 = (if vscale < 1 then size0 * vscale else size0);
         minv = 4 / vscale;
         size2 = (if size1 < minv then minv else size1)
     in size2 * 0.5 * scale)"

subsection \<open>The cached lines buffer\<close>

definition line_x1 :: "SLADEMap \<Rightarrow> MapLine \<Rightarrow> real" where
  "line_x1 m l = vec_x (position (vertices m ! v1 l))"

definition line_y1 :: "SLADEMap \<Rightarrow> MapLine \<Rightarrow> real" where
  "line_y1 m l = vec_y (position (vertices m ! v1 l))"

definition line_x2 :: "SLADEMap \<Rightarrow> MapLine \<Rightarrow> real" where
  "line_x2 m l = vec_x (position (vertices m ! v2 l))"

definition line_y2 :: "SLADEMap \<Rightarrow> MapLine \<Rightarrow> real" where
  "line_y2 m l = vec_y (position (vertices m ! v2 l))"

text \<open>
  \<^verbatim>\<open>lineColour(line, ignore_filter)\<close>; for a null line the default-constructed colour
  \<open>col0\<close> is returned as it is.
\<close>

definition lineColour :: "Env \<Rightarrow> ColRGBA \<Rightarrow> MapLine option \<Rightarrow> bool \<Rightarrow> ColRGBA" where
  "lineColour env col0 line ignore_filter =
    (case line of
       None \<Rightarrow> col0
     | Some l \<Rightarrow>
        (let c1 = (if special l > 0 then colour env ''map_line_special''
                   else if s1 l then colour env ''map_line_normal''
                   else colour env ''map_line_invalid'');
             c2 = (if s2 l then mul_alpha c1 0.6 else c1)
         in if isFiltered l \<and> \<not> ignore_filter then mul_alpha c2 0.25 else c2))"






subsection \<open>The cached thing buffers\<close>

text \<open>
  \<^verbatim>\<open>updateThingBuffers\<close>: one buffer per thing type, created when the first thing of the
  type is met; the map from type to buffer of the source is the lookup of the buffer
  with that \<open>tb_type\<close>. The texture that \<^verbatim>\<open>setupThingBuffer\<close> chooses is a function of
  the thing type and is not recorded.
\<close>

definition thing_instance :: "MapThing \<Rightarrow> ThingInstance" where
  "thing_instance t =
     \<lparr>ti_x = vec_x (thing_pos t), ti_y = vec_y (thing_pos t), ti_angle = thing_angle t,
      ti_alpha = (if thing_filtered t then 0.25 else 1)\<rparr>"

definition add_to_thing_buffers :: "MapThing \<Rightarrow> ThingBuffer2D list \<Rightarrow> ThingBuffer2D list" where
  "add_to_thing_buffers t bufs =
    (if list_ex (\<lambda>b. tb_type b = thing_type t) bufs
     then map (\<lambda>b. if tb_type b = thing_type t
                    then b\<lparr>tb_staged := tb_staged b @ [thing_instance t]\<rparr> else b) bufs
     else bufs @ [\<lparr>tb_type = thing_type t, tb_staged = [thing_instance t], tb_uploaded = []\<rparr>])"

definition updateThingBuffers :: "SLADEMap \<Rightarrow> int \<Rightarrow> MapRenderer2D \<Rightarrow> MapRenderer2D" where
  "updateThingBuffers m now r =
     r\<lparr>thing_buffers := map tb_push (fold add_to_thing_buffers (things m) []),
       things_updated := now\<rparr>"

text \<open>\<^verbatim>\<open>renderThings(alpha, force_dir)\<close>.\<close>

definition renderThings ::
  "Env \<Rightarrow> SLADEMap \<Rightarrow> View \<Rightarrow> int \<Rightarrow> real \<Rightarrow> bool \<Rightarrow> MapRenderer2D \<Rightarrow> MapRenderer2D" where
  "renderThings env m view now alpha force_dir r =
    (if alpha \<le> 0.01 \<or> nThings m = 0 then r
     else
       (let r1 = r\<lparr>things_angles := force_dir\<rparr>;
            r2 = (if thing_buffers r1 = [] \<or> thingsUpdated m > things_updated r1
                  then updateThingBuffers m now r1 else r1)
        in r2\<lparr>gl_calls := gl_calls r2 @ SetBlend ''Normal'' #
              map (\<lambda>b. DrawThingBuffer b view \<lparr>v4_r = 1, v4_g = 1, v4_b = 1, v4_a = alpha\<rparr>
                          (thing_shape env = 1) force_dir)
                (thing_buffers r2)\<rparr>))"

subsection \<open>Thing paths\<close>

text \<open>
  The decoding of a chain pointer from a thing's arguments, as \<^verbatim>\<open>updateThingPaths\<close> does it
  twice (for \<^verbatim>\<open>tid\<close> and for \<^verbatim>\<open>tid2\<close>): the variable keeps its old value \<open>tid\<close> when
  \<^verbatim>\<open>nextargs\<close> is zero. \<^verbatim>\<open>tid\<close> is an \<^verbatim>\<open>int\<close>: the sum and the product wrap around.
\<close>

definition next_tid :: "int \<Rightarrow> MapThing \<Rightarrow> 32 word \<Rightarrow> 32 word" where
  "next_tid nextargs thing tid =
    (let tid1 = (if nextargs \<noteq> 0 then thing_arg thing (nextargs smod 10 - 1) else tid)
     in if nextargs \<ge> 10 then tid1 + 256 * thing_arg thing (nextargs sdiv 10 - 1) else tid1)"

text \<open>
  The body of the inner loop for normal paths: \<open>thing\<close> is the candidate, \<open>thing2\<close> a
  later candidate. The variables \<^verbatim>\<open>path\<close> and \<^verbatim>\<open>tid2\<close> live across the iterations, so
  they are part of the loop state together with the path list.
\<close>

definition normal_step ::
  "Env \<Rightarrow> MapThing \<Rightarrow> int \<Rightarrow> 32 word \<Rightarrow> MapThing
     \<Rightarrow> ThingPath \<times> 32 word \<times> ThingPath list \<Rightarrow> ThingPath \<times> 32 word \<times> ThingPath list" where
  "normal_step env thing nexttype tid thing2 st =
    (case st of (path, tid2, paths) \<Rightarrow>
      if thing_type thing2 = nexttype then
        (let tid2' = next_tid (nextArgs (thingType env (thing_type thing2))) thing2 tid2;
             path' =
               (if thing_id thing2 = tid
                then path\<lparr>from_index := thing_index thing, to_index := thing_index thing2,
                          path_type := (if tid2' = thing_id thing then NormalBoth else Normal)\<rparr>
                else if thing_id thing = tid2'
                then path\<lparr>from_index := thing_index thing2, to_index := thing_index thing,
                          path_type := Normal\<rparr>
                else path)
         in (path', tid2', paths @ [path']))
      else (path, tid2, paths))"

text \<open>
  The inner loop for normal paths, \<^verbatim>\<open>for (unsigned b = a + 1; b < things.size(); ++b)\<close>,
  from the index \<open>b\<close> on. The loops of \<^verbatim>\<open>updateThingPaths\<close> are written as the source has
  them, with a running index that is compared with the size of the list; such a
  function returns \<open>Some\<close> result when the loop ends and \<open>None\<close> when it does not.
\<close>

partial_function (option) normal_loop ::
  "Env \<Rightarrow> MapThing list \<Rightarrow> MapThing \<Rightarrow> int \<Rightarrow> 32 word \<Rightarrow> nat
     \<Rightarrow> ThingPath \<times> 32 word \<times> ThingPath list \<Rightarrow> (ThingPath \<times> 32 word \<times> ThingPath list) option" where
  "normal_loop env candidates thing nexttype tid b st =
    (if b < length candidates
     then normal_loop env candidates thing nexttype tid (b + 1)
            (normal_step env thing nexttype tid (candidates ! b) st)
     else Some st)"

text \<open>
  The tests \<^verbatim>\<open>l1to2\<close> and \<^verbatim>\<open>l2to1\<close> of the dragon loop: one of the five arguments of
  \<open>t1\<close> is the id of \<open>t2\<close>.
\<close>

definition refers_to :: "MapThing \<Rightarrow> MapThing \<Rightarrow> bool" where
  "refers_to t1 t2 =
     (thing_arg t1 0 = thing_id t2 \<or> thing_arg t1 1 = thing_id t2 \<or> thing_arg t1 2 = thing_id t2
      \<or> thing_arg t1 3 = thing_id t2 \<or> thing_arg t1 4 = thing_id t2)"

text \<open>
  The body of the inner loop for dragon paths, for the pair \<open>t1 = dragon_things[d]\<close>,
  \<open>t2 = dragon_things[e]\<close>. \<^verbatim>\<open>ThingPath dpath;\<close> has no initialiser: what it holds when no
  branch assigns it is not determined by the source. \<open>dpath0\<close> stands for the contents of
  this one declaration of \<^verbatim>\<open>dpath\<close>; every execution of the declaration has its own.
\<close>

definition dragon_pair :: "Env \<Rightarrow> ThingPath \<Rightarrow> MapThing \<Rightarrow> MapThing \<Rightarrow> ThingPath list \<Rightarrow> ThingPath list" where
  "dragon_pair env dpath0 t1 t2 paths =
    (let l1to2 = refers_to t1 t2;
         l2to1 = refers_to t2 t1
     in if \<not> (tt_dragon (thingType env (thing_type t1)) \<or> tt_dragon (thingType env (thing_type t2)))
        then paths @
          [if l1to2
           then dpath0\<lparr>from_index := thing_index t2, to_index := thing_index t1,
                       path_type := (if l2to1 then DragonBoth else Dragon)\<rparr>
           else if l2to1
           then dpath0\<lparr>from_index := thing_index t1, to_index := thing_index t2,
                       path_type := Dragon\<rparr>
           else dpath0]
        else paths)"

text \<open>
  The two nested loops over \<^verbatim>\<open>dragon_things\<close>, here \<open>ts\<close>: \<open>d\<close> from 0, \<open>e\<close> from
  \<open>d + 1\<close>. \<open>uninit_dpath d e\<close> is what the declaration of \<^verbatim>\<open>dpath\<close> holds in the
  iteration \<open>(d, e)\<close>.
\<close>

partial_function (option) dragon_inner ::
  "Env \<Rightarrow> (nat \<Rightarrow> nat \<Rightarrow> ThingPath) \<Rightarrow> MapThing list \<Rightarrow> nat \<Rightarrow> nat \<Rightarrow> ThingPath list
     \<Rightarrow> ThingPath list option" where
  "dragon_inner env uninit_dpath ts d e paths =
    (if e < length ts
     then dragon_inner env uninit_dpath ts d (e + 1)
            (dragon_pair env (uninit_dpath d e) (ts ! d) (ts ! e) paths)
     else Some paths)"

partial_function (option) dragon_outer ::
  "Env \<Rightarrow> (nat \<Rightarrow> nat \<Rightarrow> ThingPath) \<Rightarrow> MapThing list \<Rightarrow> nat \<Rightarrow> ThingPath list
     \<Rightarrow> ThingPath list option" where
  "dragon_outer env uninit_dpath ts d paths =
    (if d < length ts
     then Option.bind (dragon_inner env uninit_dpath ts d (d + 1) paths)
            (\<lambda>paths'. dragon_outer env uninit_dpath ts (d + 1) paths')
     else Some paths)"

text \<open>
  The body of the outer loop for the candidate \<open>thing = things[a]\<close>. Two operations of the
  map are not part of the sources at hand and are parameters: \<open>firstWithId\<close> is
  \<^verbatim>\<open>map_->things().firstWithId\<close> (null is \<open>None\<close>), and \<open>putDragonTargets first\<close> is the list
  that \<^verbatim>\<open>map_->putDragonTargets(first, list)\<close> fills. \<^verbatim>\<open>ThingPath path;\<close> has no initialiser
  either: \<open>uninit_path a\<close> is what it holds for the candidate \<open>a\<close>, and
  \<open>uninit_dpath a d e\<close> what \<^verbatim>\<open>dpath\<close> holds for the candidate \<open>a\<close> in the iteration
  \<open>(d, e)\<close>. The two indices of \<^verbatim>\<open>path\<close> are set to 0.
\<close>

definition candidate_paths ::
  "Env \<Rightarrow> (32 word \<Rightarrow> MapThing option) \<Rightarrow> (MapThing \<Rightarrow> MapThing list)
     \<Rightarrow> (nat \<Rightarrow> ThingPath) \<Rightarrow> (nat \<Rightarrow> nat \<Rightarrow> nat \<Rightarrow> ThingPath)
     \<Rightarrow> MapThing list \<Rightarrow> nat \<Rightarrow> ThingPath list \<Rightarrow> ThingPath list option" where
  "candidate_paths env firstWithId putDragonTargets uninit_path uninit_dpath candidates a paths =
    (let thing = candidates ! a;
         path = (uninit_path a)\<lparr>from_index := 0, to_index := 0\<rparr>;
         tt = thingType env (thing_type thing)
     in if tt_dragon tt then
          (case firstWithId (thing_id thing) of
             None \<Rightarrow> Some paths
           | Some first \<Rightarrow>
               dragon_outer env (uninit_dpath a) (putDragonTargets first) 0
                 (paths @ [path\<lparr>from_index := thing_index thing, to_index := thing_index first,
                                 path_type := Dragon\<rparr>]))
        else
          (let tid = next_tid (nextArgs tt) thing (- 1)
           in map_option (\<lambda>st. snd (snd st))
                (normal_loop env candidates thing (nextType tt) tid (a + 1) (path, - 1, paths))))"

text \<open>The outer loop, \<^verbatim>\<open>for (unsigned a = 0; a < things.size(); ++a)\<close>, from \<open>a\<close> on.\<close>

partial_function (option) thing_paths_loop ::
  "Env \<Rightarrow> (32 word \<Rightarrow> MapThing option) \<Rightarrow> (MapThing \<Rightarrow> MapThing list)
     \<Rightarrow> (nat \<Rightarrow> ThingPath) \<Rightarrow> (nat \<Rightarrow> nat \<Rightarrow> nat \<Rightarrow> ThingPath)
     \<Rightarrow> MapThing list \<Rightarrow> nat \<Rightarrow> ThingPath list \<Rightarrow> ThingPath list option" where
  "thing_paths_loop env firstWithId putDragonTargets uninit_path uninit_dpath candidates a paths =
    (if a < length candidates
     then Option.bind
            (candidate_paths env firstWithId putDragonTargets uninit_path uninit_dpath candidates a paths)
            (\<lambda>paths'. thing_paths_loop env firstWithId putDragonTargets uninit_path uninit_dpath
                         candidates (a + 1) paths')
     else Some paths)"

text \<open>
  \<^verbatim>\<open>updateThingPaths(things)\<close>, with \<open>candidates\<close> for the argument \<^verbatim>\<open>things\<close>: the path
  list is cleared and refilled, and the timestamp is set to \<open>now\<close>, the value of
  \<^verbatim>\<open>app::runTimer()\<close>. The result is \<open>None\<close> when a loop does not end.
\<close>

definition updateThingPaths ::
  "Env \<Rightarrow> (32 word \<Rightarrow> MapThing option) \<Rightarrow> (MapThing \<Rightarrow> MapThing list)
     \<Rightarrow> (nat \<Rightarrow> ThingPath) \<Rightarrow> (nat \<Rightarrow> nat \<Rightarrow> nat \<Rightarrow> ThingPath)
     \<Rightarrow> int \<Rightarrow> MapThing list \<Rightarrow> MapRenderer2D \<Rightarrow> MapRenderer2D option" where
  "updateThingPaths env firstWithId putDragonTargets uninit_path uninit_dpath now candidates r =
     map_option (\<lambda>paths. r\<lparr>thing_paths := paths, thing_paths_updated := now\<rparr>)
       (thing_paths_loop env firstWithId putDragonTargets uninit_path uninit_dpath candidates 0 [])"

subsection \<open>Feature lookup\<close>

text \<open>
  Modelled from the spec: \<^verbatim>\<open>SLADEMap::vertex\<close>, \<^verbatim>\<open>line\<close>, \<^verbatim>\<open>sector\<close> and \<^verbatim>\<open>thing\<close> are not
  part of the sources at hand. By the spec a feature is identified by its index in its
  collection, and a lookup with an index that is not present returns "not found" (a null
  pointer, here \<open>None\<close>). The renderer passes an \<^verbatim>\<open>int\<close>.
\<close>

definition lookup_index :: "nat \<Rightarrow> int \<Rightarrow> nat option" where
  "lookup_index n i = (if 0 \<le> i \<and> nat i < n then Some (nat i) else None)"

definition map_vertex :: "SLADEMap \<Rightarrow> int \<Rightarrow> nat option" where
  "map_vertex m i = lookup_index (nVertices m) i"

definition map_line :: "SLADEMap \<Rightarrow> int \<Rightarrow> nat option" where
  "map_line m i = lookup_index (nLines m) i"

definition map_sector :: "SLADEMap \<Rightarrow> int \<Rightarrow> nat option" where
  "map_sector m i = lookup_index (nSectors m) i"

definition map_thing :: "SLADEMap \<Rightarrow> int \<Rightarrow> nat option" where
  "map_thing m i = lookup_index (nThings m) i"

subsection \<open>Hilight overlays\<close>

text \<open>
  The overlay passes dereference members that may be null (\<^verbatim>\<open>vertices_buffer_\<close>,
  \<^verbatim>\<open>flats_buffer_\<close>) without a test; such a dereference is the fault of the model. A pass
  returns the fault, or the draw context and the renderer as it leaves them.
\<close>

datatype Fault = NullDereference

definition vertexTexture :: "Env \<Rightarrow> bool \<Rightarrow> Texture" where
  "vertexTexture env overlay =
    (if overlay
     then EditorImage (if vertex_round env then ''vertex/hilight_r'' else ''vertex/hilight_s'')
     else EditorImage (if vertex_round env then ''vertex/round'' else ''vertex/square''))"

definition renderVertexHilight ::
  "Env \<Rightarrow> SLADEMap \<Rightarrow> View \<Rightarrow> int \<Rightarrow> real \<Rightarrow> MapRenderer2D \<Rightarrow> Fault + MapRenderer2D" where
  "renderVertexHilight env m view index fade r =
    (case map_vertex m index of
       None \<Rightarrow> Inr r
     | Some vertex \<Rightarrow>
        (let fade' = (if \<not> map_animate_hilight env then 1 else fade)
         in case vertices_buffer r of
              None \<Rightarrow> Inl NullDereference
            | Some vb \<Rightarrow>
               (let vb' = vb\<lparr>ps_colour := asVec4 (ampf env (colour env ''map_hilight'') 1 1 1 fade'),
                             ps_radius := vertexRadius env view (1.8 + 0.6 * fade')\<rparr>
                in Inr (r\<lparr>vertices_buffer := Some vb',
                          gl_calls := gl_calls r @
                            [SetBlend (blendMode env ''map_hilight''),
                             EnableTexture2D,
                             BindTexture (vertexTexture env True),
                             DrawPointSpriteBuffer vb' Textured view (Some (index, 1))]\<rparr>))))"

definition line_start :: "SLADEMap \<Rightarrow> MapLine \<Rightarrow> Vec2d" where
  "line_start m l = \<lparr>vec_x = line_x1 m l, vec_y = line_y1 m l\<rparr>"

definition line_end :: "SLADEMap \<Rightarrow> MapLine \<Rightarrow> Vec2d" where
  "line_end m l = \<lparr>vec_x = line_x2 m l, vec_y = line_y2 m l\<rparr>"

definition renderLineHilight ::
  "Env \<Rightarrow> SLADEMap \<Rightarrow> int \<Rightarrow> real \<Rightarrow> Context \<Rightarrow> MapRenderer2D
     \<Rightarrow> Fault + Context \<times> MapRenderer2D" where
  "renderLineHilight env m index fade dc r =
    (case map_line m index of
       None \<Rightarrow> Inr (dc, r)
     | Some l \<Rightarrow>
        (let line = lines m ! l;
             fade' = (if \<not> map_animate_hilight env then 1 else fade);
             dc1 = setColourFromConfig env ''map_hilight'' (Some fade') dc;
             dc2 = dc1\<lparr>dc_line_thickness := line_width env * (lineHilightWidth env * fade')\<rparr>
         in Inr (dc2, r\<lparr>gl_calls := gl_calls r @
               [DcDrawLines dc2 [(line_start m line, line_end m line),
                                 (line_mid line, line_tab line)]]\<rparr>)))"

text \<open>\<^verbatim>\<open>scaledRadius(radius)\<close>.\<close>

definition scaledRadius :: "View \<Rightarrow> int \<Rightarrow> real" where
  "scaledRadius view radius =
    (let radius' = (if radius > 16 then 16 else radius)
     in if vec_x (view_scale view False) > 1
        then real_of_int radius' / vec_x (view_scale view False)
        else real_of_int radius')"

definition overlay_radius :: "Env \<Rightarrow> View \<Rightarrow> MapThing \<Rightarrow> real" where
  "overlay_radius env view thing =
    (let tt = thingType env (thing_type thing)
     in if shrinkOnZoom tt then scaledRadius view (tt_radius tt) else real_of_int (tt_radius tt))"

text \<open>
  \<^verbatim>\<open>renderThingOverlays(dc, things, radius_extra, offset)\<close>. The alpha of the draw
  context's colour is a byte: halving and doubling it are integer operations. The view
  of the draw context (\<^verbatim>\<open>dc.view\<close>) is taken to be the renderer's view. Where a caller
  leaves the offset out it is the zero vector.
\<close>

definition renderThingOverlays ::
  "Env \<Rightarrow> View \<Rightarrow> MapThing list \<Rightarrow> real \<Rightarrow> Vec2d \<Rightarrow> Context \<Rightarrow> MapRenderer2D
     \<Rightarrow> Context \<times> MapRenderer2D" where
  "renderThingOverlays env view ths radius_extra offset dc r =
    (if thing_overlay_square env then
       (let dc1 = dc\<lparr>dc_texture := NoTexture,
                     dc_colour := (dc_colour dc)\<lparr>col_a := col_a (dc_colour dc) div 2\<rparr>\<rparr>;
            rects = map (\<lambda>thing.
                      DcDrawRect dc1
                        (\<lparr>vec_x = vec_x (thing_pos thing) + vec_x offset - overlay_radius env view thing,
                          vec_y = vec_y (thing_pos thing) + vec_y offset - overlay_radius env view thing\<rparr>,
                         \<lparr>vec_x = vec_x (thing_pos thing) + vec_x offset + overlay_radius env view thing,
                          vec_y = vec_y (thing_pos thing) + vec_y offset + overlay_radius env view thing\<rparr>))
                    ths;
            dc2 = dc1\<lparr>dc_colour := (dc_colour dc1)\<lparr>col_a := (col_a (dc_colour dc1) * 2) mod 256\<rparr>\<rparr>
        in (dc2, r\<lparr>gl_calls := gl_calls r @ rects\<rparr>))
     else
       (let tob0 = (thing_overlay_buffer r)
              \<lparr>ps_colour := asVec4 (dc_colour dc),
               ps_fill_opacity := 0.25,
               ps_outline_width := min (3 / vec_x (view_scale view False)) 4,
               ps_radius := dc_pointsprite_radius dc\<rparr>;
            tob1 = fold (\<lambda>thing.
                      ps_add \<lparr>vec_x = vec_x (thing_pos thing) + vec_x offset,
                              vec_y = vec_y (thing_pos thing) + vec_y offset\<rparr>
                             (overlay_radius env view thing + 4 + radius_extra))
                    ths tob0;
            tob2 = ps_push tob1
        in (dc, r\<lparr>thing_overlay_buffer := tob2,
                  gl_calls := gl_calls r @
                    [SetBlend (dc_blend dc),
                     DrawPointSpriteBuffer tob2
                       (if thing_shape env = 1 then RoundedSquareOutline else CircleOutline)
                       view None]\<rparr>)))"

definition renderThingHilight ::
  "Env \<Rightarrow> SLADEMap \<Rightarrow> View \<Rightarrow> int \<Rightarrow> real \<Rightarrow> Context \<Rightarrow> MapRenderer2D
     \<Rightarrow> Fault + Context \<times> MapRenderer2D" where
  "renderThingHilight env m view index fade dc r =
    (case map_thing m index of
       None \<Rightarrow> Inr (dc, r)
     | Some t \<Rightarrow>
        (let thing = things m ! t;
             fade' = (if \<not> map_animate_hilight env then 1 else fade);
             dc1 = setColourFromConfig env ''map_hilight'' (Some fade') dc
         in if thing_overlay_square env then
              (let radius = real_of_int (tt_radius (thingType env (thing_type thing)));
                   rect = (\<lparr>vec_x = vec_x (thing_pos thing) - radius,
                            vec_y = vec_y (thing_pos thing) - radius\<rparr>,
                           \<lparr>vec_x = vec_x (thing_pos thing) + radius,
                            vec_y = vec_y (thing_pos thing) + radius\<rparr>);
                   dc2 = dc1\<lparr>dc_texture := NoTexture, dc_line_thickness := 3\<rparr>;
                   dc3 = dc2\<lparr>dc_colour := (dc_colour dc2)\<lparr>col_a := col_a (dc_colour dc2) div 2\<rparr>\<rparr>
               in Inr (dc3, r\<lparr>gl_calls := gl_calls r @
                     [DcDrawRectOutline dc2 rect, DcDrawRect dc3 rect]\<rparr>))
            else Inr (renderThingOverlays env view [thing] (4 * fade')
                        \<lparr>vec_x = 0, vec_y = 0\<rparr> dc1 r)))"

definition renderFlatHilight ::
  "Env \<Rightarrow> SLADEMap \<Rightarrow> View \<Rightarrow> int \<Rightarrow> real \<Rightarrow> Context \<Rightarrow> MapRenderer2D
     \<Rightarrow> Fault + Context \<times> MapRenderer2D" where
  "renderFlatHilight env m view index fade dc r =
    (case map_sector m index of
       None \<Rightarrow> Inr (dc, r)
     | Some s \<Rightarrow>
        (let fade' = (if \<not> map_animate_hilight env then 1 else fade);
             dc1 = setColourFromConfig env ''map_hilight'' (Some fade') dc;
             dc2 = dc1\<lparr>dc_line_thickness := line_width env * (lineHilightWidth env * fade')\<rparr>;
             render_lines =
               concat (map (\<lambda>pl. case pl of
                                     None \<Rightarrow> []
                                   | Some l \<Rightarrow> [(line_start m (lines m ! l), line_end m (lines m ! l))])
                           (putLines (sectors m ! s)))
         in if sector_hilight_fill env then
              (if \<not> flats_buffer_present r then Inl NullDereference
               else
                 (let dc3 = dc2\<lparr>dc_line_thickness := dc_line_thickness dc2 * 0.75\<rparr>
                  in Inr (dc3, r\<lparr>gl_calls := gl_calls r @
                        [SetUniformColour (asVec4 (ampf env (dc_colour dc2) 1 1 1 0.2)),
                         SetupShader view,
                         DrawPolygon s,
                         DcDrawLines dc3 render_lines]\<rparr>)))
            else Inr (dc2, r\<lparr>gl_calls := gl_calls r @ [DcDrawLines dc2 render_lines]\<rparr>)))"

subsection \<open>The moving-vertices overlay\<close>

text \<open>
  Modelled from the spec: \<^verbatim>\<open>mapeditor::Item\<close> and \<^verbatim>\<open>Item::asVertex\<close> are declared in
  MapEditor/Item.h, which is not part of the sources at hand. A selection is a sequence
  of feature identifiers; an item resolves to the vertex with its index, and to null
  when it does not name a vertex or the index is not present.
\<close>

datatype ItemType = ItemVertex | ItemLine | ItemSide | ItemSector | ItemThing | ItemAny

record Item =
  item_index :: int
  item_type :: ItemType

definition asVertex :: "SLADEMap \<Rightarrow> Item \<Rightarrow> nat option" where
  "asVertex m item =
     (if item_type item = ItemVertex then map_vertex m (item_index item) else None)"

text \<open>
  The first loop of \<^verbatim>\<open>renderMovingVertices\<close>: for a selected vertex \<open>v\<close> and a line \<open>l\<close>
  connected to it, bit 0 of \<^verbatim>\<open>lines_drawn[l]\<close> is set when \<open>v\<close> is the line's first
  vertex and bit 1 when it is the second. The flags are bytes whose value never exceeds 3.
\<close>

definition mark_line :: "SLADEMap \<Rightarrow> nat \<Rightarrow> nat \<Rightarrow> nat list \<Rightarrow> nat list" where
  "mark_line m v l lines_drawn =
    (let d1 = (if v1 (lines m ! l) = v then lines_drawn[l := lines_drawn ! l OR 1] else lines_drawn)
     in if v2 (lines m ! l) = v then d1[l := d1 ! l OR 2] else d1)"

definition mark_item :: "SLADEMap \<Rightarrow> Item \<Rightarrow> nat list \<Rightarrow> nat list" where
  "mark_item m item lines_drawn =
    (case asVertex m item of
       None \<Rightarrow> lines_drawn
     | Some v \<Rightarrow> fold (mark_line m v) (connectedLines (vertices m ! v)) lines_drawn)"

definition mark_lines :: "SLADEMap \<Rightarrow> Item list \<Rightarrow> nat list" where
  "mark_lines m items = fold (mark_item m) items (replicate (nLines m) 0)"

text \<open>
  The body of the second loop, for the line with index \<open>a\<close>: nothing is added when the
  flags are zero; otherwise each end receives the offset exactly when its bit is set.
\<close>

definition moving_line ::
  "Env \<Rightarrow> SLADEMap \<Rightarrow> Vec2d \<Rightarrow> nat list \<Rightarrow> nat \<Rightarrow> LineBuffer \<Rightarrow> LineBuffer" where
  "moving_line env m move_vec lines_drawn a lb =
    (let line = lines m ! a;
         drawn = lines_drawn ! a
     in if drawn = 0 then lb
        else
          (let p1 = (if drawn AND 1 \<noteq> 0
                     then \<lparr>vec_x = line_x1 m line + vec_x move_vec, vec_y = line_y1 m line + vec_y move_vec\<rparr>
                     else \<lparr>vec_x = line_x1 m line, vec_y = line_y1 m line\<rparr>);
               p2 = (if drawn AND 2 \<noteq> 0
                     then \<lparr>vec_x = line_x2 m line + vec_x move_vec, vec_y = line_y2 m line + vec_y move_vec\<rparr>
                     else \<lparr>vec_x = line_x2 m line, vec_y = line_y2 m line\<rparr>)
           in lb_add2d (vec_x p1) (vec_y p1) (vec_x p2) (vec_y p2)
                (asVec4 (lineColour env (ColRGBA_default env) (Some line) True)) None lb))"

text \<open>The positions of the selected vertices, moved.\<close>

definition moving_points :: "SLADEMap \<Rightarrow> Vec2d \<Rightarrow> Item list \<Rightarrow> Vec2d list" where
  "moving_points m move_vec items =
     concat (map (\<lambda>item. case asVertex m item of
                            None \<Rightarrow> []
                          | Some v \<Rightarrow>
                              [\<lparr>vec_x = vec_x (position (vertices m ! v)) + vec_x move_vec,
                                vec_y = vec_y (position (vertices m ! v)) + vec_y move_vec\<rparr>])
                 items)"

text \<open>\<^verbatim>\<open>renderMovingVertices(dc, vertices, move_vec)\<close>, with \<open>items\<close> for \<^verbatim>\<open>vertices\<close>.\<close>

definition renderMovingVertices ::
  "Env \<Rightarrow> SLADEMap \<Rightarrow> View \<Rightarrow> Item list \<Rightarrow> Vec2d \<Rightarrow> Context \<Rightarrow> MapRenderer2D
     \<Rightarrow> Context \<times> MapRenderer2D" where
  "renderMovingVertices env m view items move_vec dc r =
    (let lines_drawn = mark_lines m items;
         tlb1 = fold (moving_line env m move_vec lines_drawn) [0..<nLines m] (temp_lines_buffer r);
         tlb2 = (lb_push tlb1)\<lparr>lb_width_mult := line_width env\<rparr>;
         dc1 = setColourFromConfig env ''map_moving'' None dc;
         dc2 = dc1\<lparr>dc_pointsprite_type := Textured,
                   dc_pointsprite_radius := vertexRadius env view 1.5,
                   dc_texture := vertexTexture env (default_overlay env)\<rparr>
     in (dc2, r\<lparr>temp_lines_buffer := tlb2,
               gl_calls := gl_calls r @
                 [SetBlend ''Normal'',
                  DrawLineBuffer tlb2 view None,
                  DcDrawPointSprites dc2 (moving_points m move_vec items)]\<rparr>))"

text \<open>
  For the proofs about the flags: the byte whose bit 0 is \<open>b1\<close> and whose bit 1 is \<open>b2\<close>.
\<close>

definition flag_byte :: "bool \<Rightarrow> bool \<Rightarrow> nat" where
  "flag_byte b1 b2 = (if b1 then (if b2 then 3 else 1) else (if b2 then 2 else 0))"

text \<open>
  For stating results about the overlay: the vertex \<open>v\<close> is named by one of the items.
\<close>

abbreviation selected :: "SLADEMap \<Rightarrow> Item list \<Rightarrow> nat \<Rightarrow> bool" where
  "selected m items v \<equiv> Some v \<in> set (map (asVertex m) items)"

section \<open>Concrete inputs\<close>

text \<open>A map with one thin sector to the left of the origin, and a view at scale 2.\<close>

definition vis_map :: SLADEMap where
  "vis_map = \<lparr>vertices = [], lines = [],
     sectors = [\<lparr>boundingBox = \<lparr>bb_min = \<lparr>vec_x = -10, vec_y = 0\<rparr>,
                                bb_max = \<lparr>vec_x = -9, vec_y = 100\<rparr>\<rparr>,
                 putLines = [], sector_modified_time = 0\<rparr>],
     things = [], geometryUpdated = 0, thingsUpdated = 0\<rparr>"

definition vis_view :: View where
  "vis_view = \<lparr>scale_cur = \<lparr>vec_x = 2, vec_y = 2\<rparr>, scale_inter = \<lparr>vec_x = 2, vec_y = 2\<rparr>\<rparr>"

text \<open>
  The default configuration (the defaults of the \<^verbatim>\<open>CVAR\<close> declarations), with every
  configured colour opaque white and two thing types: 254 is flagged \<^verbatim>\<open>Dragon\<close>, every
  other type is a plain path node that points to a thing of type 9 through its first
  argument.
\<close>

definition env0 :: Env where
  "env0 =
     \<lparr>vertex_size = 7, vertex_round = True, line_width = 1.5, thing_shape = 0, thing_overlay_square = False,
      sector_hilight_fill = True, map_animate_hilight = True,
      ColRGBA_default = \<lparr>col_r = 0, col_g = 0, col_b = 0, col_a = 255\<rparr>,
      colour = (\<lambda>name. \<lparr>col_r = 255, col_g = 255, col_b = 255, col_a = 255\<rparr>),
      blendMode = (\<lambda>name. ''Normal''),
      lineHilightWidth = 2,
      thingType = (\<lambda>t. \<lparr>tt_dragon = (t = 254), nextType = 9, nextArgs = 1,
                         tt_radius = 20, shrinkOnZoom = False\<rparr>),
      ampf = (\<lambda>c fr fg fb fa. mul_alpha c fa),
      setColourFromConfig =
        (\<lambda>name alpha dc. dc\<lparr>dc_colour := \<lparr>col_r = 255, col_g = 255, col_b = 255, col_a = 255\<rparr>\<rparr>),
      default_overlay = False\<rparr>"

text \<open>
  A map with three vertices \<open>A = (0, 0)\<close>, \<open>B = (64, 0)\<close>, \<open>C = (64, 64)\<close> and the two
  lines \<open>L1 = (A, B)\<close> and \<open>L2 = (B, C)\<close>, unmodified since time 0.
\<close>

definition lines_map :: SLADEMap where
  "lines_map =
     \<lparr>vertices =
        [\<lparr>position = \<lparr>vec_x = 0, vec_y = 0\<rparr>, connectedLines = [0]\<rparr>,
         \<lparr>position = \<lparr>vec_x = 64, vec_y = 0\<rparr>, connectedLines = [0, 1]\<rparr>,
         \<lparr>position = \<lparr>vec_x = 64, vec_y = 64\<rparr>, connectedLines = [1]\<rparr>],
      lines =
        [\<lparr>v1 = 0, v2 = 1, special = 0, s1 = True, s2 = False, isFiltered = False,
          line_mid = \<lparr>vec_x = 32, vec_y = 0\<rparr>, line_tab = \<lparr>vec_x = 32, vec_y = 6\<rparr>,
          line_modified_time = 0\<rparr>,
         \<lparr>v1 = 1, v2 = 2, special = 0, s1 = True, s2 = False, isFiltered = False,
          line_mid = \<lparr>vec_x = 64, vec_y = 32\<rparr>, line_tab = \<lparr>vec_x = 58, vec_y = 32\<rparr>,
          line_modified_time = 0\<rparr>],
      sectors = [], things = [], geometryUpdated = 0, thingsUpdated = 0\<rparr>"

text \<open>
  Two path nodes of type 9 that point at each other: \<open>thing_A\<close> has id 1 and names id 2
  in its first argument, \<open>thing_B\<close> has id 2 and names id 1. \<open>thing_B1\<close> is \<open>thing_B\<close>
  with a first argument that names nobody.
\<close>

definition thing_A :: MapThing where
  "thing_A = \<lparr>thing_index = 0, thing_type = 9, thing_id = 1,
              thing_arg = (\<lambda>i. if i = 0 then 2 else 0),
              thing_pos = \<lparr>vec_x = 0, vec_y = 0\<rparr>, thing_angle = 0, thing_filtered = False,
              thing_modified_time = 0\<rparr>"

definition thing_B :: MapThing where
  "thing_B = \<lparr>thing_index = 1, thing_type = 9, thing_id = 2,
              thing_arg = (\<lambda>i. if i = 0 then 1 else 0),
              thing_pos = \<lparr>vec_x = 128, vec_y = 0\<rparr>, thing_angle = 0, thing_filtered = False,
              thing_modified_time = 0\<rparr>"

definition thing_B1 :: MapThing where
  "thing_B1 = thing_B\<lparr>thing_arg := (\<lambda>i. 0)\<rparr>"

definition things_map :: SLADEMap where
  "things_map = \<lparr>vertices = [], lines = [], sectors = [], things = [thing_A, thing_B],
                  geometryUpdated = 0, thingsUpdated = 0\<rparr>"








definition uninit_path0 :: "nat \<Rightarrow> ThingPath" where
  "uninit_path0 a = \<lparr>from_index = 0, to_index = 0, path_type = Normal\<rparr>"

definition uninit_dpath0 :: "nat \<Rightarrow> nat \<Rightarrow> nat \<Rightarrow> ThingPath" where
  "uninit_dpath0 a d e = \<lparr>from_index = 0, to_index = 0, path_type = Normal\<rparr>"

text \<open>A draw context, and the selection that names only vertex 1 (the vertex \<open>B\<close>).\<close>

definition dc0 :: Context where
  "dc0 = \<lparr>dc_colour = \<lparr>col_r = 255, col_g = 255, col_b = 255, col_a = 255\<rparr>, dc_blend = ''Normal'',
          dc_texture = NoTexture, dc_line_thickness = 1, dc_line_arrow_length = 0,
          dc_pointsprite_type = Textured, dc_pointsprite_radius = 1\<rparr>"

definition select_B :: "Item list" where
  "select_B = [\<lparr>item_index = 1, item_type = ItemVertex\<rparr>]"

text \<open>
  A view whose scale is the \<^verbatim>\<open>double\<close> nearest to \<open>4 / 3\<close>, and the bounding box of a
  sector of width 3 to the left of the origin. The exact product of the width and the
  scale is \<open>4 - 1 / 2 ^ 52\<close>, halfway between two \<^verbatim>\<open>double\<close> values, and is rounded to 4.
\<close>

definition vis_view_third :: View where
  "vis_view_third =
     \<lparr>scale_cur = \<lparr>vec_x = 6004799503160661 / 4503599627370496,
                     vec_y = 6004799503160661 / 4503599627370496\<rparr>,
      scale_inter = \<lparr>vec_x = 6004799503160661 / 4503599627370496,
                       vec_y = 6004799503160661 / 4503599627370496\<rparr>\<rparr>"

definition bbox_wide :: BBox where
  "bbox_wide = \<lparr>bb_min = \<lparr>vec_x = -10, vec_y = 0\<rparr>, bb_max = \<lparr>vec_x = -7, vec_y = 100\<rparr>\<rparr>"

text \<open>
  Two path nodes whose type decodes the target from one argument used as both the low
  and the high slot (next-args code 11), with a target that exceeds the range of
  \<^verbatim>\<open>int\<close>: \<open>257 * 8388608\<close> wraps around to \<open>- 2139095040\<close>.
\<close>

definition env_two_slots :: Env where
  "env_two_slots =
     env0\<lparr>thingType := (\<lambda>t. \<lparr>tt_dragon = False, nextType = 9, nextArgs = 11,
                                tt_radius = 20, shrinkOnZoom = False\<rparr>)\<rparr>"

definition thing_W1 :: MapThing where
  "thing_W1 = thing_A\<lparr>thing_id := - 2139095040, thing_arg := (\<lambda>i. if i = 0 then 1 else 0)\<rparr>"

definition thing_W2 :: MapThing where
  "thing_W2 = thing_B\<lparr>thing_id := 257, thing_arg := (\<lambda>i. if i = 0 then 8388608 else 0)\<rparr>"

section \<open>Properties\<close>

subsection \<open>Sector visibility\<close>

lemma fold_update_length:
  "length (fold (\<lambda>a tab. tab[a := f a]) xs tab) = length tab"
  by (induction xs arbitrary: tab) simp_all

lemma fold_update_nth:
  "i < n \<Longrightarrow> n \<le> length tab \<Longrightarrow> fold (\<lambda>a tab. tab[a := f a]) [0..<n] tab ! i = f i"
proof (induction n)
  case 0
  then show ?case by simp
next
  case (Suc n)
  show ?case
  proof (cases "i = n")
    case True
    with Suc.prems show ?thesis by (simp add: fold_update_length)
  next
    case False
    with Suc.prems have "i < n" by simp
    with Suc show ?thesis by (simp add: fold_update_length)
  qed
qed

lemma updateVisibility_length:
  "length (vis_s (updateVisibility fl m view view_tl view_br r)) = nSectors m"
  by (simp add: updateVisibility_def fold_update_length)

lemma updateVisibility_nth:
  "a < nSectors m \<Longrightarrow>
   vis_s (updateVisibility fl m view view_tl view_br r) ! a =
     sector_vis fl view view_tl view_br (boundingBox (sectors m ! a))"
  by (simp add: updateVisibility_def fold_update_nth)

text \<open>
  The rounding to \<^verbatim>\<open>double\<close> of a number of the normal range, from the power of two below
  it, and the roundings that the concrete inputs need.
\<close>

lemma bitlen_between:
  assumes "2 ^ n \<le> b" and "b < 2 ^ (n + 1)"
  shows "bitlen b = int n + 1"
proof (rule antisym)
  show "bitlen b \<le> int n + 1"
    using assms(2) by (simp add: bitlen_le_iff_power nat_add_distrib)
  show "int n + 1 \<le> bitlen b"
    using assms(1) by (simp add: bitlen_ge_iff_power nat_add_distrib)
qed

lemma round_double_normal:
  assumes lo: "2 ^ n \<le> \<bar>x\<bar> * 2 ^ 1074" and hi: "\<bar>x\<bar> * 2 ^ 1074 < 2 ^ (n + 1)" and n: "52 \<le> n"
  shows "round_double x =
    sgn x * (of_int (round_half_even (\<bar>x\<bar> / 2 powi (int n - 1126))) * 2 powi (int n - 1126))"
proof -
  have "(2::int) ^ n \<le> \<lfloor>\<bar>x\<bar> * 2 ^ 1074\<rfloor>"
    using lo by (simp add: le_floor_iff)
  moreover have "\<lfloor>\<bar>x\<bar> * 2 ^ 1074\<rfloor> < (2::int) ^ (n + 1)"
    using hi by (simp add: floor_less_iff)
  ultimately have "bitlen \<lfloor>\<bar>x\<bar> * 2 ^ 1074\<rfloor> = int n + 1"
    by (rule bitlen_between)
  moreover have "max (int n + 1 - 1075) (- 1022) - 52 = int n - 1126"
    using n by simp
  ultimately show ?thesis
    by (simp add: round_double_def Let_def)
qed

lemma round_double_1: "round_double 1 = 1"
  using round_double_normal [of 1074 1]
  by (simp add: round_half_even_def)

lemma round_double_2: "round_double 2 = 2"
  using round_double_normal [of 1075 2]
  by (simp add: round_half_even_def)

lemma round_double_3: "round_double 3 = 3"
  using round_double_normal [of 1075 3]
  by (simp add: round_half_even_def)

lemma round_double_100: "round_double 100 = 100"
  using round_double_normal [of 1080 100]
  by (simp add: round_half_even_def)

lemma round_double_four_thirds:
  "round_double (4 / 3) = 6004799503160661 / 4503599627370496"
  using round_double_normal [of 1074 "4 / 3"]
  by (simp add: round_half_even_def)

lemma round_double_width_3:
  "round_double (3 * (6004799503160661 / 4503599627370496)) = 4"
  using round_double_normal [of 1075 "3 * (6004799503160661 / 4503599627370496)"]
  by (simp add: round_half_even_def)

lemma round_double_height_100:
  "4 \<le> round_double (100 * (6004799503160661 / 4503599627370496))"
  using round_double_normal [of 1081 "100 * (6004799503160661 / 4503599627370496)"]
  by (simp add: round_half_even_def)

text \<open>
  The sector of width 3 at the scale nearest to \<open>4 / 3\<close>: the exact product is below 4,
  the product that the code compares is 4, and the entry stays \<open>VIS_LEFT\<close>.
\<close>

lemma sector_vis_rounded_product:
  "sector_vis round_double vis_view_third \<lparr>vec_x = 0, vec_y = 0\<rparr> \<lparr>vec_x = 640, vec_y = 480\<rparr>
     bbox_wide = VIS_LEFT
   \<and> (vec_x (bb_max bbox_wide) - vec_x (bb_min bbox_wide))
       * vec_x (view_scale vis_view_third False) < 4"
proof -
  have "\<not> round_double (3 * (6004799503160661 / 4503599627370496)) < 4"
    unfolding round_double_width_3 by simp
  moreover have "\<not> round_double (100 * (6004799503160661 / 4503599627370496)) < 4"
    using round_double_height_100 by (simp only: not_less)
  ultimately show ?thesis
    by (simp add: sector_vis_def vis_view_third_def bbox_wide_def view_scale_def
        round_double_3 round_double_100 del: times_divide_eq_right)
qed

text \<open>
  C1. A sector whose bounding box lies entirely to the left of the viewport
  (\<^verbatim>\<open>bbox.max.x < view_tl.x\<close>) and whose width or height, multiplied by the view scale
  that the code uses (\<^verbatim>\<open>view_->scale().x\<close>), is below 4 is entered in the table as
  \<open>VIS_SMALL\<close>, not as \<open>VIS_LEFT\<close>: the size test is made last and overwrites the
  directional entry. The extent is the product as the code computes it, in \<^verbatim>\<open>double\<close>
  arithmetic; the statement holds whatever the rounding \<open>fl\<close> is, so for
  \<open>round_double\<close>.
\<close>

theorem updateVisibility_small_overrides_left:
  assumes "a < nSectors m"
    and "vec_x (bb_max (boundingBox (sectors m ! a))) < vec_x view_tl"
    and "fl (fl (vec_x (bb_max (boundingBox (sectors m ! a)))
                  - vec_x (bb_min (boundingBox (sectors m ! a))))
               * vec_x (view_scale view False)) < 4
         \<or> fl (fl (vec_y (bb_max (boundingBox (sectors m ! a)))
                    - vec_y (bb_min (boundingBox (sectors m ! a))))
                 * vec_x (view_scale view False)) < 4"
  shows "vis_s (updateVisibility fl m view view_tl view_br r) ! a = VIS_SMALL
       \<and> vis_s (updateVisibility fl m view view_tl view_br r) ! a \<noteq> VIS_LEFT"
  using assms by (simp add: updateVisibility_nth sector_vis_def)

theorem updateVisibility_small_overrides_left_witness:
  "(0::nat) < nSectors vis_map
   \<and> vec_x (bb_max (boundingBox (sectors vis_map ! 0))) < vec_x \<lparr>vec_x = 0, vec_y = 0\<rparr>
   \<and> round_double (round_double (vec_x (bb_max (boundingBox (sectors vis_map ! 0)))
                          - vec_x (bb_min (boundingBox (sectors vis_map ! 0))))
                * vec_x (view_scale vis_view False)) < 4
   \<and> vis_s (updateVisibility round_double vis_map vis_view \<lparr>vec_x = 0, vec_y = 0\<rparr>
         \<lparr>vec_x = 640, vec_y = 480\<rparr> new_MapRenderer2D) ! 0 = VIS_SMALL
   \<and> vis_s (updateVisibility round_double vis_map vis_view \<lparr>vec_x = 0, vec_y = 0\<rparr>
         \<lparr>vec_x = 640, vec_y = 480\<rparr> new_MapRenderer2D) ! 0 \<noteq> VIS_LEFT"
  using updateVisibility_small_overrides_left
    [where a = 0 and m = vis_map and view_tl = "\<lparr>vec_x = 0, vec_y = 0\<rparr>" and view = vis_view
      and view_br = "\<lparr>vec_x = 640, vec_y = 480\<rparr>" and r = new_MapRenderer2D and fl = round_double]
  by (simp add: vis_map_def vis_view_def nSectors_def view_scale_def round_double_1 round_double_2)

text \<open>
  C5. After \<^verbatim>\<open>updateVisibility\<close> the table has one entry per sector of the map, so
  \<^verbatim>\<open>visOK\<close> holds for that map; against a later map \<open>m'\<close> it holds exactly when the
  sector count is still the same, and in any renderer state \<^verbatim>\<open>visOK\<close> is the statement
  that the table's size equals the live sector count.
\<close>

theorem updateVisibility_table_size:
  "length (vis_s (updateVisibility fl m view view_tl view_br r)) = nSectors m
   \<and> visOK m (updateVisibility fl m view view_tl view_br r)
   \<and> (visOK m' (updateVisibility fl m view view_tl view_br r) \<longleftrightarrow> nSectors m' = nSectors m)
   \<and> (visOK m' r' \<longleftrightarrow> length (vis_s r') = nSectors m')"
  by (auto simp add: updateVisibility_length visOK_def)

text \<open>
  C10. The size test of \<^verbatim>\<open>updateVisibility\<close> multiplies the width and the height of the
  bounding box by the horizontal scale \<^verbatim>\<open>view_->scale().x\<close>; the vertical scale is never
  read. Replacing the vertical components of the view's scales by any other values
  leaves the whole result of \<^verbatim>\<open>updateVisibility\<close> unchanged.
\<close>

theorem updateVisibility_ignores_vertical_scale:
  "updateVisibility fl m
      (view\<lparr>scale_cur := (scale_cur view)\<lparr>vec_y := sy\<rparr>,
            scale_inter := (scale_inter view)\<lparr>vec_y := sy'\<rparr>\<rparr>) view_tl view_br r
    = updateVisibility fl m view view_tl view_br r
   \<and> (sector_vis fl view view_tl view_br bbox = VIS_SMALL \<longleftrightarrow>
       fl (fl (vec_x (bb_max bbox) - vec_x (bb_min bbox)) * vec_x (scale_cur view)) < 4
       \<or> fl (fl (vec_y (bb_max bbox) - vec_y (bb_min bbox)) * vec_x (scale_cur view)) < 4)"
  by (simp add: updateVisibility_def sector_vis_def view_scale_def Let_def)

subsection \<open>The cached lines buffer\<close>









subsection \<open>The cached thing buffers\<close>

text \<open>
  C6. \<^verbatim>\<open>renderThings\<close> with an alpha of at most 0.01 (in particular 0), or on a map
  without things, returns the renderer as it was: no thing buffer is rebuilt, the cached
  timestamp and the stored force-direction flag keep their values, and no draw call is
  issued.
\<close>

theorem renderThings_fast_reject:
  assumes "alpha \<le> 0.01 \<or> nThings m = 0"
  shows "renderThings env m view now alpha force_dir r = r"
  using assms by (simp add: renderThings_def)

theorem renderThings_fast_reject_witness:
  "((0::real) \<le> 0.01 \<or> nThings things_map = 0)
   \<and> renderThings env0 things_map vis_view 100 0 True new_MapRenderer2D = new_MapRenderer2D
   \<and> ((1::real) \<le> 0.01 \<or> nThings lines_map = 0)
   \<and> renderThings env0 lines_map vis_view 100 1 True new_MapRenderer2D = new_MapRenderer2D
   \<and> things_angles (renderThings env0 things_map vis_view 100 1 True new_MapRenderer2D)
   \<and> \<not> things_angles new_MapRenderer2D"
  using renderThings_fast_reject [of 0 things_map env0 vis_view 100 True new_MapRenderer2D]
    renderThings_fast_reject [of 1 lines_map env0 vis_view 100 True new_MapRenderer2D]
  by (simp add: lines_map_def nThings_def things_map_def renderThings_def updateThingBuffers_def
      new_MapRenderer2D_def)

subsection \<open>Vertex radius\<close>

text \<open>
  C8. At horizontal view scale 2 and \<^verbatim>\<open>vertex_size\<close> 7 the raw size is 3.5, the shrink
  for scales below 1 is skipped, the minimum 2 does not bind, and the result is
  \<open>1.75 * scale\<close>. In general, at a positive view scale, the size is clamped to the
  minimum \<open>4 / vscale\<close> first and then multiplied by 0.5 and by the caller's factor.
\<close>

theorem vertexRadius_clamp_order:
  "vertexRadius (env\<lparr>vertex_size := 7\<rparr>) (view\<lparr>scale_inter := \<lparr>vec_x = 2, vec_y = sy\<rparr>\<rparr>) scale
     = 1.75 * scale
   \<and> (0 < vec_x (scale_inter view) \<longrightarrow>
        vertexRadius env view scale =
          max (if vec_x (scale_inter view) < 1 then real_of_int (vertex_size env)
               else real_of_int (vertex_size env) / vec_x (scale_inter view))
              (4 / vec_x (scale_inter view)) * 0.5 * scale)"
  by (simp add: vertexRadius_def view_scale_def Let_def max_def)

theorem vertexRadius_clamp_order_witness:
  "vertexRadius env0 vis_view 1 = 1.75
   \<and> vertexRadius env0 (vis_view\<lparr>scale_inter := \<lparr>vec_x = 0.5, vec_y = 0.5\<rparr>\<rparr>) 1 = 4
   \<and> vertexRadius env0 (vis_view\<lparr>scale_inter := \<lparr>vec_x = 4, vec_y = 4\<rparr>\<rparr>) 3 = 2.625"
  using vertexRadius_clamp_order [where env = env0 and view = vis_view and scale = 1]
    vertexRadius_clamp_order
      [where env = env0 and view = "vis_view\<lparr>scale_inter := \<lparr>vec_x = 0.5, vec_y = 0.5\<rparr>\<rparr>" and scale = 1]
    vertexRadius_clamp_order
      [where env = env0 and view = "vis_view\<lparr>scale_inter := \<lparr>vec_x = 4, vec_y = 4\<rparr>\<rparr>" and scale = 3]
  by (simp add: env0_def vis_view_def)

subsection \<open>Thing paths\<close>

text \<open>
  Each loop ends: its index grows by one in every iteration and is compared with the
  length of a list that the loop does not change. The result of a loop is the fold of
  its body over the remaining indices.
\<close>

lemma normal_loop_fold:
  "normal_loop env cands thing nt tid b st
     = Some (fold (normal_step env thing nt tid) (drop b cands) st)"
proof (induction "length cands - b" arbitrary: b st)
  case 0
  then show ?case by (subst normal_loop.simps) simp
next
  case (Suc n)
  then have b: "b < length cands" and n: "n = length cands - Suc b" by simp_all
  from b have d: "drop b cands = cands ! b # drop (Suc b) cands"
    by (simp add: Cons_nth_drop_Suc)
  show ?case
    by (subst normal_loop.simps) (simp add: b d Suc.hyps(1) [OF n])
qed













lemma ThingPath_update_all:
  "p\<lparr>from_index := x, to_index := y, path_type := z\<rparr>
     = \<lparr>from_index = x, to_index = y, path_type = z\<rparr>" for p :: ThingPath
  by (cases p) simp


lemma candidate_paths_normal:
  assumes "\<not> tt_dragon (thingType env (thing_type (cands ! a)))"
  shows "candidate_paths env fw pdt up ud cands a paths =
      Some (snd (snd (fold
        (normal_step env (cands ! a) (nextType (thingType env (thing_type (cands ! a))))
           (next_tid (nextArgs (thingType env (thing_type (cands ! a)))) (cands ! a) (- 1)))
        (drop (a + 1) cands)
        ((up a)\<lparr>from_index := 0, to_index := 0\<rparr>, - 1, paths))))"
  using assms by (simp add: candidate_paths_def Let_def normal_loop_fold)

lemma thing_paths_loop_done:
  "length cands \<le> a \<Longrightarrow> thing_paths_loop env fw pdt up ud cands a = Some"
  by (rule ext, subst thing_paths_loop.simps) simp

lemma thing_paths_loop_step:
  "a < length cands \<Longrightarrow>
   thing_paths_loop env fw pdt up ud cands a =
     (\<lambda>ps. Option.bind (candidate_paths env fw pdt up ud cands a ps)
              (thing_paths_loop env fw pdt up ud cands (Suc a)))"
  by (rule ext, subst thing_paths_loop.simps) simp


lemma thing_paths_loop_two:
  "thing_paths_loop env fw pdt up ud [A, B] 0 ps =
     Option.bind (candidate_paths env fw pdt up ud [A, B] 0 ps)
       (candidate_paths env fw pdt up ud [A, B] (Suc 0))"
  by (simp add: thing_paths_loop_step thing_paths_loop_done)

text \<open>
  C3. Two candidates \<open>A\<close>, \<open>B\<close>, neither of a dragon-flagged type, \<open>B\<close> of the type that
  \<open>A\<close>'s type declares as next, and \<open>B\<close>'s id equal to the target decoded from \<open>A\<close>'s
  arguments. If the target decoded from \<open>B\<close>'s arguments, by the rule of \<open>B\<close>'s own type,
  is \<open>A\<close>'s id, the path list is the single path from \<open>A\<close> to \<open>B\<close> of kind
  \<open>NormalBoth\<close>; if it is not, the path list is the single path from \<open>A\<close> to \<open>B\<close> of
  kind \<open>Normal\<close>. The targets are decoded as the code decodes them, in \<^verbatim>\<open>int\<close>
  arithmetic that wraps around.
\<close>

theorem updateThingPaths_two_things:
  assumes "\<not> tt_dragon (thingType env (thing_type A))"
    and "\<not> tt_dragon (thingType env (thing_type B))"
    and "thing_type B = nextType (thingType env (thing_type A))"
    and "thing_id B = next_tid (nextArgs (thingType env (thing_type A))) A (- 1)"
  shows "(next_tid (nextArgs (thingType env (thing_type B))) B (- 1) = thing_id A \<longrightarrow>
           map_option thing_paths (updateThingPaths env fw pdt up ud now [A, B] r) =
             Some [\<lparr>from_index = thing_index A, to_index = thing_index B, path_type = NormalBoth\<rparr>])
       \<and> (next_tid (nextArgs (thingType env (thing_type B))) B (- 1) \<noteq> thing_id A \<longrightarrow>
           map_option thing_paths (updateThingPaths env fw pdt up ud now [A, B] r) =
             Some [\<lparr>from_index = thing_index A, to_index = thing_index B, path_type = Normal\<rparr>])"
  using assms
  by (simp add: updateThingPaths_def thing_paths_loop_two candidate_paths_normal normal_step_def
      Let_def ThingPath_update_all)

theorem updateThingPaths_two_things_witness:
  "map_option thing_paths
     (updateThingPaths env0 (\<lambda>i. None) (\<lambda>t. []) uninit_path0 uninit_dpath0 100 [thing_A, thing_B]
        new_MapRenderer2D)
     = Some [\<lparr>from_index = 0, to_index = 1, path_type = NormalBoth\<rparr>]
   \<and> map_option thing_paths
     (updateThingPaths env0 (\<lambda>i. None) (\<lambda>t. []) uninit_path0 uninit_dpath0 100 [thing_A, thing_B1]
        new_MapRenderer2D)
     = Some [\<lparr>from_index = 0, to_index = 1, path_type = Normal\<rparr>]
   \<and> map_option thing_paths
     (updateThingPaths env_two_slots (\<lambda>i. None) (\<lambda>t. []) uninit_path0 uninit_dpath0 100
        [thing_W1, thing_W2] new_MapRenderer2D)
     = Some [\<lparr>from_index = 0, to_index = 1, path_type = NormalBoth\<rparr>]"
proof -
  have a: "\<not> tt_dragon (thingType env0 (thing_type thing_A))"
    "\<not> tt_dragon (thingType env0 (thing_type thing_B))"
    "thing_type thing_B = nextType (thingType env0 (thing_type thing_A))"
    "thing_id thing_B = next_tid (nextArgs (thingType env0 (thing_type thing_A))) thing_A (- 1)"
    by (simp_all add: env0_def thing_A_def thing_B_def next_tid_def signed_modulo_int_def
        signed_divide_int_def)
  have b: "\<not> tt_dragon (thingType env0 (thing_type thing_A))"
    "\<not> tt_dragon (thingType env0 (thing_type thing_B1))"
    "thing_type thing_B1 = nextType (thingType env0 (thing_type thing_A))"
    "thing_id thing_B1 = next_tid (nextArgs (thingType env0 (thing_type thing_A))) thing_A (- 1)"
    by (simp_all add: env0_def thing_A_def thing_B_def thing_B1_def next_tid_def
        signed_modulo_int_def signed_divide_int_def)
  have w: "\<not> tt_dragon (thingType env_two_slots (thing_type thing_W1))"
    "\<not> tt_dragon (thingType env_two_slots (thing_type thing_W2))"
    "thing_type thing_W2 = nextType (thingType env_two_slots (thing_type thing_W1))"
    "thing_id thing_W2
       = next_tid (nextArgs (thingType env_two_slots (thing_type thing_W1))) thing_W1 (- 1)"
    by (simp_all add: env_two_slots_def thing_A_def thing_B_def thing_W1_def thing_W2_def
        next_tid_def signed_modulo_int_def signed_divide_int_def)
  have c: "next_tid (nextArgs (thingType env0 (thing_type thing_B))) thing_B (- 1) = thing_id thing_A"
    "next_tid (nextArgs (thingType env0 (thing_type thing_B1))) thing_B1 (- 1) \<noteq> thing_id thing_A"
    "next_tid (nextArgs (thingType env_two_slots (thing_type thing_W2))) thing_W2 (- 1)
       = thing_id thing_W1"
    by (simp_all add: env0_def env_two_slots_def thing_A_def thing_B_def thing_B1_def thing_W1_def
        thing_W2_def next_tid_def signed_modulo_int_def signed_divide_int_def)
  from updateThingPaths_two_things [OF a] updateThingPaths_two_things [OF b]
    updateThingPaths_two_things [OF w] c
  show ?thesis by (simp add: thing_A_def thing_B_def thing_B1_def thing_W1_def thing_W2_def)
qed










subsection \<open>Hilight overlays\<close>

text \<open>
  C9. When the lookup of the index finds no feature, each of \<^verbatim>\<open>renderVertexHilight\<close>,
  \<^verbatim>\<open>renderLineHilight\<close>, \<^verbatim>\<open>renderThingHilight\<close> and \<^verbatim>\<open>renderFlatHilight\<close> returns at
  once: the result is no fault, the draw context and the renderer are unchanged, and in
  particular no draw call is recorded.
\<close>

theorem hilight_not_found_noop:
  "(map_vertex m index = None \<longrightarrow> renderVertexHilight env m view index fade r = Inr r)
   \<and> (map_line m index = None \<longrightarrow> renderLineHilight env m index fade dc r = Inr (dc, r))
   \<and> (map_thing m index = None \<longrightarrow> renderThingHilight env m view index fade dc r = Inr (dc, r))
   \<and> (map_sector m index = None \<longrightarrow> renderFlatHilight env m view index fade dc r = Inr (dc, r))"
  by (simp add: renderVertexHilight_def renderLineHilight_def renderThingHilight_def
      renderFlatHilight_def)

theorem hilight_not_found_noop_witness:
  "map_vertex lines_map 3 = None
   \<and> renderVertexHilight env0 lines_map vis_view 3 1 new_MapRenderer2D = Inr new_MapRenderer2D
   \<and> map_line lines_map (- 1) = None
   \<and> renderLineHilight env0 lines_map (- 1) 1 dc0 new_MapRenderer2D = Inr (dc0, new_MapRenderer2D)
   \<and> map_thing things_map 2 = None
   \<and> renderThingHilight env0 things_map vis_view 2 1 dc0 new_MapRenderer2D = Inr (dc0, new_MapRenderer2D)
   \<and> map_sector vis_map 1 = None
   \<and> renderFlatHilight env0 vis_map vis_view 1 1 dc0 new_MapRenderer2D = Inr (dc0, new_MapRenderer2D)
   \<and> map_line lines_map 1 = Some 1
   \<and> renderLineHilight env0 lines_map 1 1 dc0 new_MapRenderer2D \<noteq> Inr (dc0, new_MapRenderer2D)"
proof -
  have n: "map_vertex lines_map 3 = None" "map_line lines_map (- 1) = None"
    "map_thing things_map 2 = None" "map_sector vis_map 1 = None" "map_line lines_map 1 = Some 1"
    by (simp_all add: map_vertex_def map_line_def map_thing_def map_sector_def lookup_index_def
        nVertices_def nLines_def nThings_def nSectors_def lines_map_def things_map_def vis_map_def)
  have d: "renderLineHilight env0 lines_map 1 1 dc0 new_MapRenderer2D \<noteq> Inr (dc0, new_MapRenderer2D)"
    by (simp add: renderLineHilight_def n Let_def new_MapRenderer2D_def)
  from hilight_not_found_noop [of lines_map 3 env0 vis_view 1 new_MapRenderer2D]
    hilight_not_found_noop [of lines_map "- 1" env0 vis_view 1 new_MapRenderer2D dc0]
    hilight_not_found_noop [of things_map 2 env0 vis_view 1 new_MapRenderer2D dc0]
    hilight_not_found_noop [of vis_map 1 env0 vis_view 1 new_MapRenderer2D dc0]
    n d
  show ?thesis by simp
qed

subsection \<open>The moving-vertices overlay\<close>

lemma flag_byte_simps:
  "flag_byte b1 b2 OR 1 = flag_byte True b2"
  "flag_byte b1 b2 OR 2 = flag_byte b1 True"
  "flag_byte b1 b2 AND 1 \<noteq> 0 \<longleftrightarrow> b1"
  "flag_byte b1 b2 AND 2 \<noteq> 0 \<longleftrightarrow> b2"
  "flag_byte b1 b2 = 0 \<longleftrightarrow> \<not> b1 \<and> \<not> b2"
  by (simp_all add: flag_byte_def)

lemma mark_line_length: "length (mark_line m v l xs) = length xs"
  by (simp add: mark_line_def Let_def)

lemma mark_line_nth_other:
  "k \<noteq> l \<Longrightarrow> mark_line m v l xs ! k = xs ! k"
  by (simp add: mark_line_def Let_def)

lemma mark_line_nth_same:
  assumes "l < length xs" "xs ! l = flag_byte b1 b2"
  shows "mark_line m v l xs ! l
           = flag_byte (b1 \<or> v1 (lines m ! l) = v) (b2 \<or> v2 (lines m ! l) = v)"
proof -
  have "mark_line m v l xs ! l =
    (let y = (if v1 (lines m ! l) = v then flag_byte b1 b2 OR 1 else flag_byte b1 b2)
     in if v2 (lines m ! l) = v then y OR 2 else y)"
    using assms
    by (simp only: mark_line_def Let_def nth_list_update_eq length_list_update split: if_splits) simp
  also have "\<dots> = flag_byte (b1 \<or> v1 (lines m ! l) = v) (b2 \<or> v2 (lines m ! l) = v)"
    by (simp only: flag_byte_simps Let_def) (simp add: flag_byte_def)
  finally show ?thesis .
qed

text \<open>A table of flags is described by two predicates on line indices.\<close>

lemma mark_line_flags:
  assumes "l < n"
  shows "mark_line m v l (map (\<lambda>k. flag_byte (b1 k) (b2 k)) [0..<n])
     = map (\<lambda>k. flag_byte (b1 k \<or> (k = l \<and> v1 (lines m ! k) = v))
                           (b2 k \<or> (k = l \<and> v2 (lines m ! k) = v))) [0..<n]"
    (is "?lhs = ?rhs")
proof (rule nth_equalityI)
  show "length ?lhs = length ?rhs"
    by (simp add: mark_line_length)
next
  fix k assume "k < length ?lhs"
  then have k: "k < n" by (simp add: mark_line_length)
  show "?lhs ! k = ?rhs ! k"
  proof (cases "k = l")
    case True
    have "?lhs ! l = flag_byte (b1 l \<or> v1 (lines m ! l) = v) (b2 l \<or> v2 (lines m ! l) = v)"
      by (rule mark_line_nth_same) (use assms in simp_all)
    with True k show ?thesis by simp
  next
    case False
    with k show ?thesis by (simp add: mark_line_nth_other)
  qed
qed

lemma fold_mark_line_flags:
  assumes "\<forall>l \<in> set ls. l < n"
  shows "fold (mark_line m v) ls (map (\<lambda>k. flag_byte (b1 k) (b2 k)) [0..<n])
     = map (\<lambda>k. flag_byte (b1 k \<or> (k \<in> set ls \<and> v1 (lines m ! k) = v))
                           (b2 k \<or> (k \<in> set ls \<and> v2 (lines m ! k) = v))) [0..<n]"
  using assms
proof (induction ls arbitrary: b1 b2)
  case Nil
  then show ?case by simp
next
  case (Cons l ls)
  then have l: "l < n" and ls: "\<forall>l \<in> set ls. l < n" by simp_all
  have "fold (mark_line m v) (l # ls) (map (\<lambda>k. flag_byte (b1 k) (b2 k)) [0..<n])
      = map (\<lambda>k. flag_byte
                ((b1 k \<or> (k = l \<and> v1 (lines m ! k) = v)) \<or> (k \<in> set ls \<and> v1 (lines m ! k) = v))
                ((b2 k \<or> (k = l \<and> v2 (lines m ! k) = v)) \<or> (k \<in> set ls \<and> v2 (lines m ! k) = v)))
          [0..<n]"
    by (simp only: fold_simps mark_line_flags [OF l] Cons.IH [OF ls])
  also have "\<dots> = map (\<lambda>k. flag_byte (b1 k \<or> (k \<in> set (l # ls) \<and> v1 (lines m ! k) = v))
                     (b2 k \<or> (k \<in> set (l # ls) \<and> v2 (lines m ! k) = v))) [0..<n]"
    by (rule map_cong [OF refl], rule arg_cong2 [where f = flag_byte]) auto
  finally show ?case .
qed


lemma asVertex_range: "asVertex m item = Some v \<Longrightarrow> v < nVertices m"
  by (auto simp: asVertex_def map_vertex_def lookup_index_def split: if_splits)

lemma mark_item_flags:
  assumes "\<forall>v < nVertices m. \<forall>l \<in> set (connectedLines (vertices m ! v)). l < n"
  shows "mark_item m item (map (\<lambda>k. flag_byte (b1 k) (b2 k)) [0..<n])
     = map (\<lambda>k. flag_byte
               (b1 k \<or> (\<exists>v. asVertex m item = Some v \<and> k \<in> set (connectedLines (vertices m ! v))
                             \<and> v1 (lines m ! k) = v))
               (b2 k \<or> (\<exists>v. asVertex m item = Some v \<and> k \<in> set (connectedLines (vertices m ! v))
                             \<and> v2 (lines m ! k) = v))) [0..<n]"
proof (cases "asVertex m item")
  case None
  then show ?thesis by (simp add: mark_item_def)
next
  case (Some v)
  with assms asVertex_range have "\<forall>l \<in> set (connectedLines (vertices m ! v)). l < n"
    by blast
  from fold_mark_line_flags [OF this] Some show ?thesis
    by (simp add: mark_item_def)
qed

lemma fold_mark_item_flags:
  assumes "\<forall>v < nVertices m. \<forall>l \<in> set (connectedLines (vertices m ! v)). l < n"
  shows "fold (mark_item m) items (map (\<lambda>k. flag_byte (b1 k) (b2 k)) [0..<n])
     = map (\<lambda>k. flag_byte
               (b1 k \<or> (\<exists>v. selected m items v \<and> k \<in> set (connectedLines (vertices m ! v))
                             \<and> v1 (lines m ! k) = v))
               (b2 k \<or> (\<exists>v. selected m items v \<and> k \<in> set (connectedLines (vertices m ! v))
                             \<and> v2 (lines m ! k) = v))) [0..<n]"
proof (induction items arbitrary: b1 b2)
  case Nil
  then show ?case by simp
next
  case (Cons item items)
  show ?case
    unfolding fold_simps mark_item_flags [OF assms] Cons.IH
    by (rule map_cong [OF refl], rule arg_cong2 [where f = flag_byte]) auto
qed

lemma mark_lines_flags:
  assumes conn: "\<forall>v < nVertices m. \<forall>l \<in> set (connectedLines (vertices m ! v)). l < nLines m"
    and inc: "\<forall>l < nLines m. l \<in> set (connectedLines (vertices m ! v1 (lines m ! l)))
                            \<and> l \<in> set (connectedLines (vertices m ! v2 (lines m ! l)))"
    and a: "a < nLines m"
  shows "mark_lines m items ! a
           = flag_byte (selected m items (v1 (lines m ! a))) (selected m items (v2 (lines m ! a)))"
proof -
  have r: "replicate (nLines m) (0::nat) = map (\<lambda>k. flag_byte False False) [0..<nLines m]"
    by (simp add: flag_byte_def map_replicate_const)
  have "mark_lines m items ! a
     = flag_byte
         (\<exists>v. selected m items v \<and> a \<in> set (connectedLines (vertices m ! v)) \<and> v1 (lines m ! a) = v)
         (\<exists>v. selected m items v \<and> a \<in> set (connectedLines (vertices m ! v)) \<and> v2 (lines m ! a) = v)"
    unfolding mark_lines_def r fold_mark_item_flags [OF conn] using a by simp
  also have "\<dots> = flag_byte (selected m items (v1 (lines m ! a))) (selected m items (v2 (lines m ! a)))"
    using inc a by (intro arg_cong2 [where f = flag_byte]) auto
  finally show ?thesis .
qed

lemma fold_moving_line_staged:
  "lb_staged (fold (moving_line env m mv ld) as lb)
     = lb_staged lb @ concat (map (\<lambda>a. lb_staged (moving_line env m mv ld a new_LineBuffer)) as)"
proof (induction as arbitrary: lb)
  case Nil
  then show ?case by simp
next
  case (Cons a as)
  have "lb_staged (moving_line env m mv ld a lb)
          = lb_staged lb @ lb_staged (moving_line env m mv ld a new_LineBuffer)"
    by (simp add: moving_line_def Let_def lb_add2d_def new_LineBuffer_def)
  with Cons [of "moving_line env m mv ld a lb"] show ?case by simp
qed

lemma concat_map_if:
  "concat (map (\<lambda>a. if P a then [f a] else []) xs) = map f (filter P xs)"
  by (induction xs) simp_all

lemma moving_line_staged:
  assumes "ld ! a = flag_byte s1' s2'"
  shows "lb_staged (moving_line env m mv ld a new_LineBuffer) =
    (if s1' \<or> s2' then
       [\<lparr>gl_x1 = (if s1' then line_x1 m (lines m ! a) + vec_x mv else line_x1 m (lines m ! a)),
         gl_y1 = (if s1' then line_y1 m (lines m ! a) + vec_y mv else line_y1 m (lines m ! a)),
         gl_x2 = (if s2' then line_x2 m (lines m ! a) + vec_x mv else line_x2 m (lines m ! a)),
         gl_y2 = (if s2' then line_y2 m (lines m ! a) + vec_y mv else line_y2 m (lines m ! a)),
         gl_colour = asVec4 (lineColour env (ColRGBA_default env) (Some (lines m ! a)) True),
         gl_width = None\<rparr>]
     else [])"
  unfolding moving_line_def Let_def assms flag_byte_simps
  by (simp add: lb_add2d_def new_LineBuffer_def)

lemma lines_map_simps:
  "nLines lines_map = 2" "nVertices lines_map = 3"
  "lines lines_map ! 0 = \<lparr>v1 = 0, v2 = 1, special = 0, s1 = True, s2 = False, isFiltered = False,
          line_mid = \<lparr>vec_x = 32, vec_y = 0\<rparr>, line_tab = \<lparr>vec_x = 32, vec_y = 6\<rparr>,
          line_modified_time = 0\<rparr>"
  "lines lines_map ! Suc 0 = \<lparr>v1 = 1, v2 = 2, special = 0, s1 = True, s2 = False, isFiltered = False,
          line_mid = \<lparr>vec_x = 64, vec_y = 32\<rparr>, line_tab = \<lparr>vec_x = 58, vec_y = 32\<rparr>,
          line_modified_time = 0\<rparr>"
  "vertices lines_map ! 0 = \<lparr>position = \<lparr>vec_x = 0, vec_y = 0\<rparr>, connectedLines = [0]\<rparr>"
  "vertices lines_map ! Suc 0 = \<lparr>position = \<lparr>vec_x = 64, vec_y = 0\<rparr>, connectedLines = [0, 1]\<rparr>"
  "vertices lines_map ! Suc (Suc 0) = \<lparr>position = \<lparr>vec_x = 64, vec_y = 64\<rparr>, connectedLines = [1]\<rparr>"
  "vertices lines_map ! 2 = \<lparr>position = \<lparr>vec_x = 64, vec_y = 64\<rparr>, connectedLines = [1]\<rparr>"
  by (simp_all add: lines_map_def nLines_def nVertices_def)

text \<open>
  C7. In a map whose vertex-to-line incidence is consistent (the lines connected to a
  vertex exist, and every line is connected to both of its vertices), and with the
  transient buffer's staging list empty as every \<^verbatim>\<open>push\<close> leaves it, the lines that
  \<^verbatim>\<open>renderMovingVertices\<close> uploads and draws are, in the order of the map, the lines with
  a selected vertex; the first end of such a line is moved by the offset exactly when
  the line's first vertex is selected, the second end exactly when its second vertex is
  selected, and an end that is not selected stays where it is. For \<open>L1 = (A, B)\<close>,
  \<open>L2 = (B, C)\<close> and only \<open>B\<close> selected this gives \<open>(A, B + offset)\<close> and
  \<open>(B + offset, C)\<close>.
\<close>

theorem renderMovingVertices_partial_stretch:
  assumes conn: "\<forall>v < nVertices m. \<forall>l \<in> set (connectedLines (vertices m ! v)). l < nLines m"
    and inc: "\<forall>l < nLines m. l \<in> set (connectedLines (vertices m ! v1 (lines m ! l)))
                            \<and> l \<in> set (connectedLines (vertices m ! v2 (lines m ! l)))"
    and staged: "lb_staged (temp_lines_buffer r) = []"
  shows "lb_uploaded (temp_lines_buffer (snd (renderMovingVertices env m view items move_vec dc r))) =
      map (\<lambda>a.
            \<lparr>gl_x1 = (if selected m items (v1 (lines m ! a))
                      then line_x1 m (lines m ! a) + vec_x move_vec else line_x1 m (lines m ! a)),
             gl_y1 = (if selected m items (v1 (lines m ! a))
                      then line_y1 m (lines m ! a) + vec_y move_vec else line_y1 m (lines m ! a)),
             gl_x2 = (if selected m items (v2 (lines m ! a))
                      then line_x2 m (lines m ! a) + vec_x move_vec else line_x2 m (lines m ! a)),
             gl_y2 = (if selected m items (v2 (lines m ! a))
                      then line_y2 m (lines m ! a) + vec_y move_vec else line_y2 m (lines m ! a)),
             gl_colour = asVec4 (lineColour env (ColRGBA_default env) (Some (lines m ! a)) True),
             gl_width = None\<rparr>)
        (filter (\<lambda>a. selected m items (v1 (lines m ! a)) \<or> selected m items (v2 (lines m ! a)))
           [0..<nLines m])
    \<and> gl_calls (snd (renderMovingVertices env m view items move_vec dc r)) =
        gl_calls r @
          [SetBlend ''Normal'',
           DrawLineBuffer (temp_lines_buffer (snd (renderMovingVertices env m view items move_vec dc r)))
             view None,
           DcDrawPointSprites (fst (renderMovingVertices env m view items move_vec dc r))
             (moving_points m move_vec items)]"
proof -
  let ?seg = "\<lambda>a.
            \<lparr>gl_x1 = (if selected m items (v1 (lines m ! a))
                      then line_x1 m (lines m ! a) + vec_x move_vec else line_x1 m (lines m ! a)),
             gl_y1 = (if selected m items (v1 (lines m ! a))
                      then line_y1 m (lines m ! a) + vec_y move_vec else line_y1 m (lines m ! a)),
             gl_x2 = (if selected m items (v2 (lines m ! a))
                      then line_x2 m (lines m ! a) + vec_x move_vec else line_x2 m (lines m ! a)),
             gl_y2 = (if selected m items (v2 (lines m ! a))
                      then line_y2 m (lines m ! a) + vec_y move_vec else line_y2 m (lines m ! a)),
             gl_colour = asVec4 (lineColour env (ColRGBA_default env) (Some (lines m ! a)) True),
             gl_width = None\<rparr>"
  let ?sel = "\<lambda>a. selected m items (v1 (lines m ! a)) \<or> selected m items (v2 (lines m ! a))"
  have "lb_uploaded (temp_lines_buffer (snd (renderMovingVertices env m view items move_vec dc r)))
      = lb_staged (fold (moving_line env m move_vec (mark_lines m items)) [0..<nLines m]
                     (temp_lines_buffer r))"
    by (simp add: renderMovingVertices_def Let_def lb_push_def)
  also have "\<dots> = concat (map (\<lambda>a. lb_staged (moving_line env m move_vec (mark_lines m items) a
                                              new_LineBuffer)) [0..<nLines m])"
    by (simp add: fold_moving_line_staged staged)
  also have "\<dots> = concat (map (\<lambda>a. if ?sel a then [?seg a] else []) [0..<nLines m])"
  proof (rule arg_cong [where f = concat], rule map_cong [OF refl])
    fix a assume "a \<in> set [0..<nLines m]"
    then have "a < nLines m" by simp
    from moving_line_staged [OF mark_lines_flags [OF conn inc this]]
    show "lb_staged (moving_line env m move_vec (mark_lines m items) a new_LineBuffer)
          = (if ?sel a then [?seg a] else [])" .
  qed
  also have "\<dots> = map ?seg (filter ?sel [0..<nLines m])"
    by (rule concat_map_if)
  finally show ?thesis
    by (simp add: renderMovingVertices_def Let_def)
qed

theorem renderMovingVertices_partial_stretch_witness:
  "lb_staged (temp_lines_buffer new_MapRenderer2D) = []
   \<and> lb_uploaded (temp_lines_buffer (snd (renderMovingVertices env0 lines_map vis_view select_B
         \<lparr>vec_x = 8, vec_y = 16\<rparr> dc0 new_MapRenderer2D)))
     = [\<lparr>gl_x1 = 0, gl_y1 = 0, gl_x2 = 72, gl_y2 = 16,
         gl_colour = \<lparr>v4_r = 1, v4_g = 1, v4_b = 1, v4_a = 1\<rparr>, gl_width = None\<rparr>,
        \<lparr>gl_x1 = 72, gl_y1 = 16, gl_x2 = 64, gl_y2 = 64,
         gl_colour = \<lparr>v4_r = 1, v4_g = 1, v4_b = 1, v4_a = 1\<rparr>, gl_width = None\<rparr>]"
proof -
  have conn: "\<forall>v < nVertices lines_map. \<forall>l \<in> set (connectedLines (vertices lines_map ! v)).
                l < nLines lines_map"
    by (simp add: lines_map_simps numeral_3_eq_3 less_Suc_eq)
  have inc: "\<forall>l < nLines lines_map.
        l \<in> set (connectedLines (vertices lines_map ! v1 (lines lines_map ! l)))
      \<and> l \<in> set (connectedLines (vertices lines_map ! v2 (lines lines_map ! l)))"
    by (simp add: lines_map_simps numeral_2_eq_2 less_Suc_eq)
  have staged: "lb_staged (temp_lines_buffer new_MapRenderer2D) = []"
    by (simp add: new_MapRenderer2D_def new_LineBuffer_def)
  have sel: "asVertex lines_map \<lparr>item_index = 1, item_type = ItemVertex\<rparr> = Some 1"
    by (simp add: asVertex_def map_vertex_def lookup_index_def lines_map_simps)
  have col: "asVec4 (lineColour env0 (ColRGBA_default env0) (Some l) True)
       = \<lparr>v4_r = 1, v4_g = 1, v4_b = 1, v4_a = real (if s2 l then nat \<lfloor>255 * 0.6 :: real\<rfloor> else 255) / 255\<rparr>" for l
    by (simp add: lineColour_def env0_def asVec4_def mul_alpha_def Let_def)
  have upt: "[0..<2] = [0, Suc 0]"
    by (simp add: upt_rec numeral_2_eq_2)
  from renderMovingVertices_partial_stretch [OF conn inc staged, of env0 vis_view select_B
      "\<lparr>vec_x = 8, vec_y = 16\<rparr>" dc0] staged
  show ?thesis
    by (simp add: upt select_B_def sel col lines_map_simps line_x1_def line_x2_def line_y1_def
        line_y2_def)
qed

end
